theory Spec2Isabelle
  imports Complex_Main "HOL-Library.AList"
begin

section \<open>Data model (src/src/physics/types.ts)\<close>

text \<open>
  JavaScript numbers are modelled as reals: rounding of arithmetic, NaN and the
  infinities are outside the model.  The only place where the program narrows a number
  is a store into a \<^verbatim>\<open>Float32Array\<close>; that narrowing is the parameter \<open>fround\<close> of
  the environment below.  A JavaScript \<^verbatim>\<open>Map\<close> is an association list in insertion
  order: \<^verbatim>\<open>set\<close> is \<^const>\<open>AList.update\<close> (an existing key keeps its place, a new key
  goes to the end), \<^verbatim>\<open>delete\<close> is \<^const>\<open>AList.delete\<close>, \<^verbatim>\<open>get\<close> is \<^const>\<open>map_of\<close>
  and \<^verbatim>\<open>forEach\<close> walks the list from its head.
\<close>

type_synonym vec3 = "real \<times> real \<times> real"
type_synonym quat = "real \<times> real \<times> real \<times> real"

text \<open>
  The enum \<^verbatim>\<open>PhysicsShapeType\<close>.  A message is structured data that arrives at run
  time, so its tag can be any string; \<open>OTHER\<close> stands for every tag that reaches the
  \<^verbatim>\<open>default\<close> branch of the switch in \<^verbatim>\<open>createBody\<close>.
\<close>

datatype PhysicsShapeType = BOX | SPHERE | PLANE | OTHER string

record Material =
  friction :: real
  restitution :: real

text \<open>Optional fields (\<^verbatim>\<open>size?\<close>, \<^verbatim>\<open>radius?\<close>, ...) are options; \<open>None\<close> is a missing field.\<close>

record PhysicsObjectOptions =
  type :: PhysicsShapeType
  mass :: real
  position :: vec3
  quaternion :: "quat option"
  size :: "vec3 option"
  radius :: "real option"
  material :: "Material option"
  linearDamping :: "real option"
  angularDamping :: "real option"
  fixedRotation :: "bool option"

record PhysicsBodyProperties =
  mass :: real
  position :: vec3
  quaternion :: quat
  velocity :: vec3
  angularVelocity :: vec3
  fixedRotation :: bool
  sleepState :: nat
  requestId :: string

text \<open>
  Messages from the main thread to the worker.  \<open>UNKNOWN\<close> is a message whose tag is
  none of the enum's, which the worker's switch sends to its \<^verbatim>\<open>default\<close> branch.
\<close>

datatype PhysicsWorkerIncomingMessage =
    INIT vec3 "nat option"
  | ADD_BODY nat PhysicsObjectOptions
  | REMOVE_BODY nat
  | UPDATE real
  | APPLY_FORCE nat vec3 "vec3 option"
  | APPLY_IMPULSE nat vec3 "vec3 option"
  | SET_POSITION nat vec3
  | SET_VELOCITY nat vec3
  | GET_BODY_PROPS nat string
  | UNKNOWN string

text \<open>Messages from the worker to the main thread; the two arrays of \<open>SYNC\<close> are transferred.\<close>

datatype PhysicsWorkerOutgoingMessage =
    SYNC "real list" "real list"
  | BODY_PROPS PhysicsBodyProperties
  | UNKNOWN_OUT string

section \<open>The physics engine, as far as the worker uses it\<close>

datatype Shape = Box vec3 | Sphere real | Plane

text \<open>A body of the engine: the fields the worker passes to its constructor, sets or reads.\<close>

record Body =
  mass :: real
  position :: vec3
  previousPosition :: vec3
  interpolatedPosition :: vec3
  quaternion :: quat
  velocity :: vec3
  angularVelocity :: vec3
  force :: vec3
  torque :: vec3
  material :: "Material option"
  linearDamping :: real
  angularDamping :: real
  fixedRotation :: bool
  sleepState :: nat
  shapes :: "Shape list"

text \<open>
  Bodies are objects with identity: the worker's map and the engine's world hold
  references to the same body, and the engine mutates it in place.  A reference is a
  natural number, the store maps every reference to the object it denotes.
\<close>

type_synonym body_ref = nat
type_synonym body_store = "body_ref \<Rightarrow> Body"

record World =
  gravity :: vec3
  iterations :: nat
  allowSleep :: bool
  bodies :: "body_ref list"

text \<open>
  What the program takes from outside its own source: the narrowing of a number stored
  into a \<^verbatim>\<open>Float32Array\<close>, and the engine's \<^verbatim>\<open>World.step\<close>, \<^verbatim>\<open>Body.applyForce\<close> and
  \<^verbatim>\<open>Body.applyImpulse\<close>.  They are parameters: every theorem holds for all of them.
\<close>

record Env =
  fround :: "real \<Rightarrow> real"
  world_step :: "real \<Rightarrow> World \<Rightarrow> body_store \<Rightarrow> World \<times> body_store"
  body_applyForce :: "vec3 \<Rightarrow> vec3 \<Rightarrow> Body \<Rightarrow> Body"
  body_applyImpulse :: "vec3 \<Rightarrow> vec3 \<Rightarrow> Body \<Rightarrow> Body"

definition zero3 :: vec3 where
  "zero3 = (0, 0, 0)"

text \<open>
  \<^verbatim>\<open>new CANNON.Body({mass, position, material, linearDamping, angularDamping,
  fixedRotation})\<close>: the position initialises the three position fields, the orientation
  is the identity, the body is at rest and awake.
\<close>

definition new_Body :: "real \<Rightarrow> vec3 \<Rightarrow> Material option \<Rightarrow> real \<Rightarrow> real \<Rightarrow> bool \<Rightarrow> Body" where
  "new_Body m p mat ld ad fr =
     \<lparr>Body.mass = m, position = p, previousPosition = p, interpolatedPosition = p,
      quaternion = (0, 0, 0, 1), velocity = zero3, angularVelocity = zero3,
      force = zero3, torque = zero3, material = mat, linearDamping = ld,
      angularDamping = ad, fixedRotation = fr, sleepState = 0, shapes = []\<rparr>"

text \<open>
  The constructors of the engine's shapes.  \<^verbatim>\<open>new CANNON.Sphere(radius)\<close> raises for
  a negative radius; \<^verbatim>\<open>new CANNON.Box(halfExtents)\<close> and \<^verbatim>\<open>new CANNON.Plane()\<close> raise
  nothing, whatever they are given.
\<close>

definition new_Box :: "vec3 \<Rightarrow> Shape" where
  "new_Box halfExtents = Box halfExtents"

definition new_Plane :: Shape where
  "new_Plane = Plane"

definition addShape :: "Shape \<Rightarrow> Body \<Rightarrow> Body" where
  "addShape sh b = b\<lparr>shapes := shapes b @ [sh]\<rparr>"

definition World_addBody :: "body_ref \<Rightarrow> World \<Rightarrow> World" where
  "World_addBody r w =
     (if r \<in> set (World.bodies w) then w else w\<lparr>World.bodies := World.bodies w @ [r]\<rparr>)"

definition World_removeBody :: "body_ref \<Rightarrow> World \<Rightarrow> World" where
  "World_removeBody r w = w\<lparr>World.bodies := removeAll r (World.bodies w)\<rparr>"

section \<open>The worker (class PhysicsWorker, in src/src/cameras/CameraController.ts)\<close>

text \<open>
  A \<^verbatim>\<open>Float32Array\<close> is an object too: \<^verbatim>\<open>this.positions\<close> and \<^verbatim>\<open>this.quaternions\<close>
  are references into a store of arrays.  A transferred array is detached: its length
  in the worker becomes 0.  A write beyond the length of a typed array is ignored, as
  \<^const>\<open>list_update\<close> does; a read beyond it gives \<^verbatim>\<open>undefined\<close>.
\<close>

type_synonym array_ref = nat

record PhysicsWorker =
  world :: "World option"
  bodies :: "(nat \<times> body_ref) list"
  positions :: array_ref
  quaternions :: array_ref
  arrays :: "array_ref \<Rightarrow> real list"
  nextArray :: array_ref
  bodyStore :: body_store
  nextBody :: body_ref

datatype WorkerError = Error string | TypeError

definition new_Sphere :: "real \<Rightarrow> WorkerError + Shape" where
  "new_Sphere r =
     (if r < 0 then Inl (Error ''The sphere radius cannot be negative.'') else Inr (Sphere r))"

text \<open>
  The state of a worker whose constructor has run: \<^verbatim>\<open>world\<close> is declared with a
  definite-assignment assertion and holds \<^verbatim>\<open>undefined\<close>, the map is empty and the two
  arrays are two distinct arrays of length 0.  No body has been allocated; the store
  holds a body at rest everywhere.
\<close>

definition new_PhysicsWorker :: PhysicsWorker where
  "new_PhysicsWorker =
     \<lparr>world = None, bodies = [], positions = 0, quaternions = 1,
      arrays = (\<lambda>_. []), nextArray = 2,
      bodyStore = (\<lambda>_. new_Body 0 zero3 None 0 0 False), nextBody = 0\<rparr>"

definition init :: "vec3 \<Rightarrow> nat option \<Rightarrow> PhysicsWorker \<Rightarrow> PhysicsWorker" where
  "init g its s =
     s\<lparr>world := Some \<lparr>gravity = g,
                       iterations = (case its of None \<Rightarrow> 10 | Some n \<Rightarrow> n),
                       allowSleep = True, World.bodies = []\<rparr>\<rparr>"

text \<open>
  The switch of \<^verbatim>\<open>createBody\<close>.  \<^verbatim>\<open>!options.size\<close> holds when the field is missing
  (an array is truthy whatever it holds); \<^verbatim>\<open>!options.radius\<close> holds when the field is
  missing or is 0.
\<close>

definition make_shape :: "PhysicsObjectOptions \<Rightarrow> WorkerError + Shape" where
  "make_shape options =
     (case PhysicsObjectOptions.type options of
        BOX \<Rightarrow>
          (case size options of
             None \<Rightarrow> Inl (Error ''Box shape requires size'')
           | Some (sx, sy, sz) \<Rightarrow> Inr (new_Box (sx / 2, sy / 2, sz / 2)))
      | SPHERE \<Rightarrow>
          (case radius options of
             None \<Rightarrow> Inl (Error ''Sphere shape requires radius'')
           | Some r \<Rightarrow>
               if r = 0 then Inl (Error ''Sphere shape requires radius'')
               else new_Sphere r)
      | PLANE \<Rightarrow> Inr new_Plane
      | OTHER t \<Rightarrow> Inl (Error (''Unsupported shape type: '' @ t)))"

definition make_body :: "PhysicsObjectOptions \<Rightarrow> Shape \<Rightarrow> Body" where
  "make_body options shape =
     (let body = new_Body (PhysicsObjectOptions.mass options)
                   (PhysicsObjectOptions.position options)
                   (PhysicsObjectOptions.material options)
                   (case PhysicsObjectOptions.linearDamping options of
                      None \<Rightarrow> 1 / 100 | Some d \<Rightarrow> d)
                   (case PhysicsObjectOptions.angularDamping options of
                      None \<Rightarrow> 1 / 100 | Some d \<Rightarrow> d)
                   (case PhysicsObjectOptions.fixedRotation options of
                      None \<Rightarrow> False | Some f \<Rightarrow> f);
          body = addShape shape body
      in case PhysicsObjectOptions.quaternion options of
           None \<Rightarrow> body
         | Some q \<Rightarrow> body\<lparr>quaternion := q\<rparr>)"

text \<open>
  \<^verbatim>\<open>new Float32Array(n)\<close> holds n zeros.  \<^verbatim>\<open>dst.set(src)\<close> copies \<open>src\<close> over the
  head of \<open>dst\<close>; \<^verbatim>\<open>resizeArrays\<close> calls it only with a source shorter than the
  destination, where it cannot raise.
\<close>

definition new_Float32Array :: "nat \<Rightarrow> real list" where
  "new_Float32Array n = replicate n 0"

definition Float32Array_set :: "real list \<Rightarrow> real list \<Rightarrow> real list" where
  "Float32Array_set dst src = src @ drop (length src) dst"

definition resizeArrays :: "PhysicsWorker \<Rightarrow> PhysicsWorker" where
  "resizeArrays s =
     (let size = length (bodies s);
          s1 = (if length (arrays s (positions s)) < size * 3
                then s\<lparr>arrays := (arrays s)(nextArray s :=
                                   Float32Array_set (new_Float32Array (size * 3))
                                     (arrays s (positions s))),
                       positions := nextArray s,
                       nextArray := Suc (nextArray s)\<rparr>
                else s);
          s2 = (if length (arrays s1 (quaternions s1)) < size * 4
                then s1\<lparr>arrays := (arrays s1)(nextArray s1 :=
                                    Float32Array_set (new_Float32Array (size * 4))
                                      (arrays s1 (quaternions s1))),
                        quaternions := nextArray s1,
                        nextArray := Suc (nextArray s1)\<rparr>
                else s1)
      in s2)"

text \<open>
  \<^verbatim>\<open>createBody\<close>: the shape switch raises first; the body is built; then
  \<^verbatim>\<open>this.world.addBody\<close> raises a TypeError when \<^verbatim>\<open>this.world\<close> is \<^verbatim>\<open>undefined\<close>.
\<close>

definition createBody :: "nat \<Rightarrow> PhysicsObjectOptions \<Rightarrow> PhysicsWorker \<Rightarrow> WorkerError + PhysicsWorker" where
  "createBody bid options s =
     (case make_shape options of
        Inl e \<Rightarrow> Inl e
      | Inr shape \<Rightarrow>
          (let body = make_body options shape
           in case world s of
                None \<Rightarrow> Inl TypeError
              | Some w \<Rightarrow>
                  (let r = nextBody s;
                       s1 = s\<lparr>bodyStore := (bodyStore s)(r := body),
                              nextBody := Suc r,
                              world := Some (World_addBody r w),
                              bodies := AList.update bid r (bodies s)\<rparr>
                   in Inr (resizeArrays s1))))"

definition removeBody :: "nat \<Rightarrow> PhysicsWorker \<Rightarrow> WorkerError + PhysicsWorker" where
  "removeBody bid s =
     (case map_of (bodies s) bid of
        None \<Rightarrow> Inr s
      | Some r \<Rightarrow>
          (case world s of
             None \<Rightarrow> Inl TypeError
           | Some w \<Rightarrow>
               Inr (s\<lparr>world := Some (World_removeBody r w),
                      bodies := AList.delete bid (bodies s)\<rparr>)))"

text \<open>The body of the \<^verbatim>\<open>forEach\<close> of \<^verbatim>\<open>update\<close>, with its counter \<open>i\<close>.\<close>

fun copyBodies ::
  "Env \<Rightarrow> body_store \<Rightarrow> (nat \<times> body_ref) list \<Rightarrow> nat \<Rightarrow> real list \<Rightarrow> real list
    \<Rightarrow> real list \<times> real list" where
  "copyBodies E h [] i ps qs = (ps, qs)"
| "copyBodies E h (e # es) i ps qs =
     (let body = h (snd e);
          ps1 = ps[i * 3 := fround E (fst (position body)),
                   i * 3 + 1 := fround E (fst (snd (position body))),
                   i * 3 + 2 := fround E (snd (snd (position body)))];
          qs1 = qs[i * 4 := fround E (fst (quaternion body)),
                   i * 4 + 1 := fround E (fst (snd (quaternion body))),
                   i * 4 + 2 := fround E (fst (snd (snd (quaternion body)))),
                   i * 4 + 3 := fround E (snd (snd (snd (quaternion body))))]
      in copyBodies E h es (i + 1) ps1 qs1)"

text \<open>
  \<^verbatim>\<open>sync\<close>: the message holds the two arrays; both are in the transfer list, so they
  are detached in the worker; two new arrays are allocated.
\<close>

definition sync :: "PhysicsWorker \<Rightarrow> PhysicsWorker \<times> PhysicsWorkerOutgoingMessage list" where
  "sync s =
     (let message = SYNC (arrays s (positions s)) (arrays s (quaternions s));
          detached = (arrays s)(positions s := [], quaternions s := []);
          n = nextArray s;
          size = length (bodies s)
      in (s\<lparr>arrays := detached(n := new_Float32Array (size * 3),
                                 Suc n := new_Float32Array (size * 4)),
             positions := n,
             quaternions := Suc n,
             nextArray := Suc (Suc n)\<rparr>,
          [message]))"

definition update ::
  "Env \<Rightarrow> real \<Rightarrow> PhysicsWorker \<Rightarrow> WorkerError + PhysicsWorker \<times> PhysicsWorkerOutgoingMessage list" where
  "update E dt s =
     (case world s of
        None \<Rightarrow> Inl TypeError
      | Some w \<Rightarrow>
          (let (w1, h1) = world_step E dt w (bodyStore s);
               (ps, qs) = copyBodies E h1 (bodies s) 0
                            (arrays s (positions s)) (arrays s (quaternions s));
               s1 = s\<lparr>world := Some w1, bodyStore := h1,
                      arrays := (arrays s)(positions s := ps, quaternions s := qs)\<rparr>
           in Inr (sync s1)))"

definition applyForce :: "Env \<Rightarrow> nat \<Rightarrow> vec3 \<Rightarrow> vec3 option \<Rightarrow> PhysicsWorker \<Rightarrow> PhysicsWorker" where
  "applyForce E bid f worldPoint s =
     (case map_of (bodies s) bid of
        None \<Rightarrow> s
      | Some r \<Rightarrow>
          (let body = bodyStore s r;
               point = (case worldPoint of None \<Rightarrow> position body | Some p \<Rightarrow> p)
           in s\<lparr>bodyStore := (bodyStore s)(r := body_applyForce E f point body)\<rparr>))"

definition applyImpulse :: "Env \<Rightarrow> nat \<Rightarrow> vec3 \<Rightarrow> vec3 option \<Rightarrow> PhysicsWorker \<Rightarrow> PhysicsWorker" where
  "applyImpulse E bid imp worldPoint s =
     (case map_of (bodies s) bid of
        None \<Rightarrow> s
      | Some r \<Rightarrow>
          (let body = bodyStore s r;
               point = (case worldPoint of None \<Rightarrow> position body | Some p \<Rightarrow> p)
           in s\<lparr>bodyStore := (bodyStore s)(r := body_applyImpulse E imp point body)\<rparr>))"

definition setPosition :: "nat \<Rightarrow> vec3 \<Rightarrow> PhysicsWorker \<Rightarrow> PhysicsWorker" where
  "setPosition bid p s =
     (case map_of (bodies s) bid of
        None \<Rightarrow> s
      | Some r \<Rightarrow>
          s\<lparr>bodyStore := (bodyStore s)(r := (bodyStore s r)
               \<lparr>position := p, previousPosition := p, interpolatedPosition := p\<rparr>)\<rparr>)"

definition setVelocity :: "nat \<Rightarrow> vec3 \<Rightarrow> PhysicsWorker \<Rightarrow> PhysicsWorker" where
  "setVelocity bid v s =
     (case map_of (bodies s) bid of
        None \<Rightarrow> s
      | Some r \<Rightarrow> s\<lparr>bodyStore := (bodyStore s)(r := (bodyStore s r)\<lparr>velocity := v\<rparr>)\<rparr>)"

text \<open>
  \<^verbatim>\<open>getBodyProps\<close> changes nothing; it posts one message, or (unknown id) only writes
  a warning to the console, which is no message.
\<close>

definition getBodyProps :: "nat \<Rightarrow> string \<Rightarrow> PhysicsWorker \<Rightarrow> PhysicsWorkerOutgoingMessage list" where
  "getBodyProps bid rid s =
     (case map_of (bodies s) bid of
        None \<Rightarrow> []
      | Some r \<Rightarrow>
          (let body = bodyStore s r
           in [BODY_PROPS
                 \<lparr>PhysicsBodyProperties.mass = Body.mass body,
                  position = Body.position body,
                  quaternion = Body.quaternion body,
                  velocity = Body.velocity body,
                  angularVelocity = Body.angularVelocity body,
                  fixedRotation = Body.fixedRotation body,
                  sleepState = Body.sleepState body,
                  requestId = rid\<rparr>]))"

text \<open>
  \<^verbatim>\<open>handleMessage\<close>: the new state and the messages posted, or the exception that
  leaves the handler.  The \<^verbatim>\<open>default\<close> branch writes to the console only.
\<close>

fun handleMessage ::
  "Env \<Rightarrow> PhysicsWorkerIncomingMessage \<Rightarrow> PhysicsWorker
    \<Rightarrow> WorkerError + PhysicsWorker \<times> PhysicsWorkerOutgoingMessage list" where
  "handleMessage E (INIT g its) s = Inr (init g its s, [])"
| "handleMessage E (ADD_BODY bid options) s =
     (case createBody bid options s of Inl e \<Rightarrow> Inl e | Inr s1 \<Rightarrow> Inr (s1, []))"
| "handleMessage E (REMOVE_BODY bid) s =
     (case removeBody bid s of Inl e \<Rightarrow> Inl e | Inr s1 \<Rightarrow> Inr (s1, []))"
| "handleMessage E (UPDATE dt) s = update E dt s"
| "handleMessage E (APPLY_FORCE bid f wp) s = Inr (applyForce E bid f wp s, [])"
| "handleMessage E (APPLY_IMPULSE bid imp wp) s = Inr (applyImpulse E bid imp wp s, [])"
| "handleMessage E (SET_POSITION bid p) s = Inr (setPosition bid p s, [])"
| "handleMessage E (SET_VELOCITY bid v) s = Inr (setVelocity bid v s, [])"
| "handleMessage E (GET_BODY_PROPS bid rid) s = Inr (s, getBodyProps bid rid s)"
| "handleMessage E (UNKNOWN t) s = Inr (s, [])"

text \<open>
  The worker handles its messages one at a time, in the order of the channel.  A run
  ends at the first exception; a handler that raises has changed nothing and posted
  nothing before it raises.
\<close>

fun run ::
  "Env \<Rightarrow> PhysicsWorkerIncomingMessage list \<Rightarrow> PhysicsWorker
    \<Rightarrow> WorkerError + PhysicsWorker \<times> PhysicsWorkerOutgoingMessage list" where
  "run E [] s = Inr (s, [])"
| "run E (m # ms) s =
     (case handleMessage E m s of
        Inl e \<Rightarrow> Inl e
      | Inr (s1, out1) \<Rightarrow>
          (case run E ms s1 of
             Inl e \<Rightarrow> Inl e
           | Inr (s2, out2) \<Rightarrow> Inr (s2, out1 @ out2)))"

section \<open>The coordinator (class PhysicsWorld, src/src/physics/PhysicsWorld.ts)\<close>

text \<open>
  A renderable object of the scene.  A component is \<^verbatim>\<open>undefined\<close> (\<open>None\<close>) when it
  was set from a read beyond the end of a typed array.
\<close>

record Object3D =
  position :: "real option \<times> real option \<times> real option"
  quaternion :: "real option \<times> real option \<times> real option \<times> real option"

type_synonym object_ref = nat
type_synonym promise_ref = nat

text \<open>
  The fields of the class, and the two kinds of objects of the main thread it acts on:
  the renderable objects it was given references to, and the promises it has created
  (\<open>None\<close>: pending; a callback of \<^verbatim>\<open>bodyPropsCallbacks\<close> is the \<^verbatim>\<open>resolve\<close> of one
  promise).
\<close>

record PhysicsWorld =
  objects :: "(nat \<times> object_ref) list"
  nextBodyId :: nat
  lastUpdateTime :: real
  bodyPropsCallbacks :: "(string \<times> promise_ref) list"
  object3Ds :: "object_ref \<Rightarrow> Object3D"
  promises :: "promise_ref \<Rightarrow> PhysicsBodyProperties option"
  nextPromise :: promise_ref

text \<open>The constructor posts \<open>INIT\<close> with the default gravity and 10 iterations.\<close>

definition new_PhysicsWorld ::
  "(object_ref \<Rightarrow> Object3D) \<Rightarrow> PhysicsWorld \<times> PhysicsWorkerIncomingMessage list" where
  "new_PhysicsWorld scene =
     (\<lparr>objects = [], nextBodyId = 1, lastUpdateTime = 0, bodyPropsCallbacks = [],
       object3Ds = scene, promises = (\<lambda>_. None), nextPromise = 0\<rparr>,
      [INIT (0, - (982 / 100), 0) (Some 10)])"

definition addObject ::
  "object_ref \<Rightarrow> PhysicsObjectOptions \<Rightarrow> PhysicsWorld
    \<Rightarrow> nat \<times> PhysicsWorld \<times> PhysicsWorkerIncomingMessage list" where
  "addObject object options c =
     (let bid = nextBodyId c;
          c1 = c\<lparr>nextBodyId := nextBodyId c + 1,
                 objects := AList.update bid object (objects c)\<rparr>
      in (bid, c1, [ADD_BODY bid options]))"

definition removeObject ::
  "nat \<Rightarrow> PhysicsWorld \<Rightarrow> PhysicsWorld \<times> PhysicsWorkerIncomingMessage list" where
  "removeObject bid c =
     (c\<lparr>objects := AList.delete bid (objects c)\<rparr>, [REMOVE_BODY bid])"

text \<open>
  \<^verbatim>\<open>update\<close> of the coordinator; \<open>now\<close> is what \<^verbatim>\<open>performance.now()\<close> returns, in
  milliseconds.
\<close>

definition PhysicsWorld_update ::
  "real \<Rightarrow> PhysicsWorld \<Rightarrow> PhysicsWorld \<times> PhysicsWorkerIncomingMessage list" where
  "PhysicsWorld_update now c =
     (let dt = (now - lastUpdateTime c) / 1000;
          dt = (if dt > 1 / 30 then 1 / 30 else dt)
      in (c\<lparr>lastUpdateTime := now\<rparr>, [UPDATE dt]))"

definition Float32Array_get :: "real list \<Rightarrow> nat \<Rightarrow> real option" where
  "Float32Array_get a k = (if k < length a then Some (a ! k) else None)"

text \<open>
  \<^verbatim>\<open>Vector3.set(x, y, z)\<close> of the rendering library keeps the old \<open>z\<close> when the
  \<open>z\<close> it is given is \<^verbatim>\<open>undefined\<close>, and stores \<open>x\<close> and \<open>y\<close> as they are;
  \<^verbatim>\<open>Quaternion.set(x, y, z, w)\<close> stores all four as they are.
\<close>

definition Vector3_set ::
  "real option \<Rightarrow> real option \<Rightarrow> real option
    \<Rightarrow> real option \<times> real option \<times> real option
    \<Rightarrow> real option \<times> real option \<times> real option" where
  "Vector3_set x y z v = (x, y, (case z of None \<Rightarrow> snd (snd v) | Some z1 \<Rightarrow> Some z1))"

definition Quaternion_set ::
  "real option \<Rightarrow> real option \<Rightarrow> real option \<Rightarrow> real option
    \<Rightarrow> real option \<times> real option \<times> real option \<times> real option" where
  "Quaternion_set x y z w = (x, y, z, w)"

text \<open>The two \<^verbatim>\<open>set\<close> calls of \<^verbatim>\<open>updateObjects\<close> on one object, for the counter \<open>i\<close>.\<close>

definition setTransform :: "real list \<Rightarrow> real list \<Rightarrow> nat \<Rightarrow> Object3D \<Rightarrow> Object3D" where
  "setTransform ps qs i object =
     object\<lparr>position := Vector3_set (Float32Array_get ps (i * 3))
                           (Float32Array_get ps (i * 3 + 1))
                           (Float32Array_get ps (i * 3 + 2))
                           (Object3D.position object),
            quaternion := Quaternion_set (Float32Array_get qs (i * 4))
                             (Float32Array_get qs (i * 4 + 1))
                             (Float32Array_get qs (i * 4 + 2))
                             (Float32Array_get qs (i * 4 + 3))\<rparr>"

fun updateObjects_loop ::
  "real list \<Rightarrow> real list \<Rightarrow> (nat \<times> object_ref) list \<Rightarrow> nat
    \<Rightarrow> (object_ref \<Rightarrow> Object3D) \<Rightarrow> (object_ref \<Rightarrow> Object3D)" where
  "updateObjects_loop ps qs [] i h = h"
| "updateObjects_loop ps qs (e # es) i h =
     (let h1 = (if i * 3 < length ps \<and> i * 4 < length qs
                then h(snd e := setTransform ps qs i (h (snd e)))
                else h)
      in updateObjects_loop ps qs es (i + 1) h1)"

definition updateObjects :: "real list \<Rightarrow> real list \<Rightarrow> PhysicsWorld \<Rightarrow> PhysicsWorld" where
  "updateObjects ps qs c =
     c\<lparr>object3Ds := updateObjects_loop ps qs (objects c) 0 (object3Ds c)\<rparr>"

text \<open>Resolving a promise settles it once; a settled promise ignores later calls.\<close>

definition resolve :: "promise_ref \<Rightarrow> PhysicsBodyProperties \<Rightarrow> PhysicsWorld \<Rightarrow> PhysicsWorld" where
  "resolve p props c =
     (case promises c p of
        None \<Rightarrow> c\<lparr>promises := (promises c)(p := Some props)\<rparr>
      | Some v \<Rightarrow> c)"

text \<open>
  \<^verbatim>\<open>getBodyProperties\<close>; \<open>rid\<close> is what \<^verbatim>\<open>crypto.randomUUID()\<close> returns.  The result is
  the new promise.
\<close>

definition getBodyProperties ::
  "nat \<Rightarrow> string \<Rightarrow> PhysicsWorld
    \<Rightarrow> promise_ref \<times> PhysicsWorld \<times> PhysicsWorkerIncomingMessage list" where
  "getBodyProperties bid rid c =
     (let p = nextPromise c;
          c1 = c\<lparr>nextPromise := Suc p,
                 promises := (promises c)(p := None),
                 bodyPropsCallbacks := AList.update rid p (bodyPropsCallbacks c)\<rparr>
      in (p, c1, [GET_BODY_PROPS bid rid]))"

fun PhysicsWorld_handleMessage ::
  "PhysicsWorkerOutgoingMessage \<Rightarrow> PhysicsWorld \<Rightarrow> PhysicsWorld" where
  "PhysicsWorld_handleMessage (SYNC ps qs) c = updateObjects ps qs c"
| "PhysicsWorld_handleMessage (BODY_PROPS message) c =
     (case map_of (bodyPropsCallbacks c) (requestId message) of
        None \<Rightarrow> c
      | Some callback \<Rightarrow>
          (resolve callback message c)
            \<lparr>bodyPropsCallbacks := AList.delete (requestId message) (bodyPropsCallbacks c)\<rparr>)"
| "PhysicsWorld_handleMessage (UNKNOWN_OUT t) c = c"

text \<open>
  What happens on the main thread, one event at a time: a call of a public method of
  the class, or the delivery of a message of the worker.
\<close>

datatype MainEvent =
    AddObject object_ref PhysicsObjectOptions
  | RemoveObject nat
  | ApplyForce nat vec3 "vec3 option"
  | ApplyImpulse nat vec3 "vec3 option"
  | SetPosition nat vec3
  | SetVelocity nat vec3
  | Update real
  | GetBodyProperties nat string
  | Deliver PhysicsWorkerOutgoingMessage

fun main_step ::
  "MainEvent \<Rightarrow> PhysicsWorld \<Rightarrow> PhysicsWorld \<times> PhysicsWorkerIncomingMessage list" where
  "main_step (AddObject object options) c = snd (addObject object options c)"
| "main_step (RemoveObject bid) c = removeObject bid c"
| "main_step (ApplyForce bid f wp) c = (c, [APPLY_FORCE bid f wp])"
| "main_step (ApplyImpulse bid imp wp) c = (c, [APPLY_IMPULSE bid imp wp])"
| "main_step (SetPosition bid p) c = (c, [SET_POSITION bid p])"
| "main_step (SetVelocity bid v) c = (c, [SET_VELOCITY bid v])"
| "main_step (Update now) c = PhysicsWorld_update now c"
| "main_step (GetBodyProperties bid rid) c = snd (getBodyProperties bid rid c)"
| "main_step (Deliver m) c = (PhysicsWorld_handleMessage m c, [])"

fun main_run ::
  "MainEvent list \<Rightarrow> PhysicsWorld \<Rightarrow> PhysicsWorld \<times> PhysicsWorkerIncomingMessage list" where
  "main_run [] c = (c, [])"
| "main_run (e # es) c =
     (let (c1, out1) = main_step e c;
          (c2, out2) = main_run es c1
      in (c2, out1 @ out2))"

section \<open>Predicates of the statements\<close>

fun is_Update :: "MainEvent \<Rightarrow> bool" where
  "is_Update (Update now) = True"
| "is_Update e = False"

fun is_INIT :: "PhysicsWorkerIncomingMessage \<Rightarrow> bool" where
  "is_INIT (INIT g its) = True"
| "is_INIT m = False"

text \<open>The two commands whose handlers call a method of \<^verbatim>\<open>this.world\<close> whatever the map holds.\<close>

fun needs_world :: "PhysicsWorkerIncomingMessage \<Rightarrow> bool" where
  "needs_world (ADD_BODY bid options) = True"
| "needs_world (UPDATE dt) = True"
| "needs_world m = False"

text \<open>
  The shape invariant in the words of the specification: a box needs a size of three
  positive numbers, a sphere a positive radius, and the tag must be one of the three.
\<close>

definition violates_shape_invariant :: "PhysicsObjectOptions \<Rightarrow> bool" where
  "violates_shape_invariant options =
     (case PhysicsObjectOptions.type options of
        BOX \<Rightarrow> (case size options of
                  None \<Rightarrow> True
                | Some (sx, sy, sz) \<Rightarrow> \<not> (0 < sx \<and> 0 < sy \<and> 0 < sz))
      | SPHERE \<Rightarrow> (case radius options of None \<Rightarrow> True | Some r \<Rightarrow> \<not> 0 < r)
      | PLANE \<Rightarrow> False
      | OTHER t \<Rightarrow> True)"

text \<open>
  What \<^verbatim>\<open>createBody\<close> rejects: a box without a size, a sphere without a radius or
  with a radius that is not positive, another tag.
\<close>

definition rejected_shape :: "PhysicsObjectOptions \<Rightarrow> bool" where
  "rejected_shape options =
     (case PhysicsObjectOptions.type options of
        BOX \<Rightarrow> size options = None
      | SPHERE \<Rightarrow> (case radius options of None \<Rightarrow> True | Some r \<Rightarrow> r \<le> 0)
      | PLANE \<Rightarrow> False
      | OTHER t \<Rightarrow> True)"

text \<open>
  The \<open>i\<close>-th position triple and the \<open>i\<close>-th orientation quadruple of a frame, a
  vector narrowed component by component, and a vector of numbers (none of them
  \<^verbatim>\<open>undefined\<close>) as an object of the scene holds it.
\<close>

definition some3 :: "vec3 \<Rightarrow> real option \<times> real option \<times> real option" where
  "some3 v = (Some (fst v), Some (fst (snd v)), Some (snd (snd v)))"

definition some4 :: "quat \<Rightarrow> real option \<times> real option \<times> real option \<times> real option" where
  "some4 q = (Some (fst q), Some (fst (snd q)), Some (fst (snd (snd q))), Some (snd (snd (snd q))))"

definition triple :: "real list \<Rightarrow> nat \<Rightarrow> vec3" where
  "triple a i = (a ! (i * 3), a ! (i * 3 + 1), a ! (i * 3 + 2))"

definition quadruple :: "real list \<Rightarrow> nat \<Rightarrow> quat" where
  "quadruple a i = (a ! (i * 4), a ! (i * 4 + 1), a ! (i * 4 + 2), a ! (i * 4 + 3))"

definition fround3 :: "Env \<Rightarrow> vec3 \<Rightarrow> vec3" where
  "fround3 E v = (fround E (fst v), fround E (fst (snd v)), fround E (snd (snd v)))"

definition fround4 :: "Env \<Rightarrow> quat \<Rightarrow> quat" where
  "fround4 E q = (fround E (fst q), fround E (fst (snd q)), fround E (fst (snd (snd q))),
                  fround E (snd (snd (snd q))))"

text \<open>
  The worker's two references denote two different allocated arrays; the two arrays
  have room for every body of the map; an array reference is retired when it has been
  allocated and the worker no longer holds it.
\<close>

definition refs_ok :: "PhysicsWorker \<Rightarrow> bool" where
  "refs_ok s = (positions s < nextArray s \<and> quaternions s < nextArray s
                \<and> positions s \<noteq> quaternions s)"

definition capacity_ok :: "PhysicsWorker \<Rightarrow> bool" where
  "capacity_ok s = (length (bodies s) * 3 \<le> length (arrays s (positions s))
                    \<and> length (bodies s) * 4 \<le> length (arrays s (quaternions s)))"

definition retired :: "PhysicsWorker \<Rightarrow> array_ref \<Rightarrow> bool" where
  "retired s r = (r < nextArray s \<and> r \<noteq> positions s \<and> r \<noteq> quaternions s)"

text \<open>
  While no body is removed, the two arrays have exactly the room the bodies of the map
  need.
\<close>

definition exact_ok :: "PhysicsWorker \<Rightarrow> bool" where
  "exact_ok s = (length (arrays s (positions s)) = length (bodies s) * 3
                 \<and> length (arrays s (quaternions s)) = length (bodies s) * 4)"

text \<open>The ids of the \<open>ADD_BODY\<close> commands of a list, in order.\<close>

fun created :: "PhysicsWorkerIncomingMessage list \<Rightarrow> nat list" where
  "created [] = []"
| "created (ADD_BODY bid options # ms) = bid # created ms"
| "created (m # ms) = created ms"

text \<open>A command that removes no body and, if it creates one, has a shape that is not rejected.\<close>

fun ok_command :: "PhysicsWorkerIncomingMessage \<Rightarrow> bool" where
  "ok_command (ADD_BODY bid options) = (\<not> rejected_shape options)"
| "ok_command (REMOVE_BODY bid) = False"
| "ok_command m = True"

text \<open>
  The objects of the \<open>AddObject\<close> events of a list, in order; an event that removes no
  object and, if it adds one, has a shape that is not rejected.
\<close>

fun added :: "MainEvent list \<Rightarrow> object_ref list" where
  "added [] = []"
| "added (AddObject object options # es) = object # added es"
| "added (e # es) = added es"

fun ok_event :: "MainEvent \<Rightarrow> bool" where
  "ok_event (AddObject object options) = (\<not> rejected_shape options)"
| "ok_event (RemoveObject bid) = False"
| "ok_event e = True"

text \<open>
  A response tagged with a request id; a command and a call that carry a request id;
  an event that delivers nothing but what the worker has posted.
\<close>

fun tagged :: "string \<Rightarrow> PhysicsWorkerOutgoingMessage \<Rightarrow> bool" where
  "tagged rid (BODY_PROPS message) = (requestId message = rid)"
| "tagged rid m = False"

fun asks :: "string \<Rightarrow> PhysicsWorkerIncomingMessage \<Rightarrow> bool" where
  "asks rid (GET_BODY_PROPS bid r) = (r = rid)"
| "asks rid m = False"

fun reuses :: "string \<Rightarrow> MainEvent \<Rightarrow> bool" where
  "reuses rid (GetBodyProperties bid r) = (r = rid)"
| "reuses rid e = False"

fun delivered_from :: "PhysicsWorkerOutgoingMessage list \<Rightarrow> MainEvent \<Rightarrow> bool" where
  "delivered_from out (Deliver m) = (m \<in> set out)"
| "delivered_from out e = True"

text \<open>
  Every registered callback belongs to a promise that exists; the query \<open>rid\<close> waits:
  its callback is registered, its promise \<open>p\<close> is unsettled, and no other request id
  has the callback of \<open>p\<close>.
\<close>

definition promises_below :: "PhysicsWorld \<Rightarrow> bool" where
  "promises_below c = list_all (\<lambda>e. snd e < nextPromise c) (bodyPropsCallbacks c)"

definition pending :: "string \<Rightarrow> promise_ref \<Rightarrow> PhysicsWorld \<Rightarrow> bool" where
  "pending rid p c =
     (map_of (bodyPropsCallbacks c) rid = Some p \<and> promises c p = None \<and> p < nextPromise c
      \<and> list_all (\<lambda>e. fst e = rid \<or> snd e \<noteq> p) (bodyPropsCallbacks c))"

section \<open>Values used in examples\<close>

text \<open>An environment: no narrowing, and an engine that moves every body along its velocity.\<close>

definition demo_Env :: Env where
  "demo_Env =
     \<lparr>fround = (\<lambda>x. x),
      world_step = (\<lambda>dt w h. (w, \<lambda>r. (h r)
         \<lparr>Body.position :=
            (fst (Body.position (h r)) + dt * fst (velocity (h r)),
             fst (snd (Body.position (h r))) + dt * fst (snd (velocity (h r))),
             snd (snd (Body.position (h r))) + dt * snd (snd (velocity (h r)))),
          previousPosition := Body.position (h r)\<rparr>)),
      body_applyForce = (\<lambda>f p b. b\<lparr>force := f\<rparr>),
      body_applyImpulse = (\<lambda>i p b. b\<lparr>velocity := i\<rparr>)\<rparr>"

definition box_options :: "vec3 \<Rightarrow> PhysicsObjectOptions" where
  "box_options p =
     \<lparr>type = BOX, mass = 1, position = p, quaternion = None, size = Some (1, 1, 1),
      radius = None, material = None, linearDamping = None, angularDamping = None,
      fixedRotation = None\<rparr>"

definition sized_box_options :: "vec3 \<Rightarrow> PhysicsObjectOptions" where
  "sized_box_options sz =
     \<lparr>type = BOX, mass = 1, position = (0, 1, 0), quaternion = None, size = Some sz,
      radius = None, material = None, linearDamping = None, angularDamping = None,
      fixedRotation = None\<rparr>"

definition sphere_options :: "real \<Rightarrow> PhysicsObjectOptions" where
  "sphere_options r =
     \<lparr>type = SPHERE, mass = 1, position = (0, 1, 0), quaternion = None, size = None,
      radius = Some r, material = None, linearDamping = None, angularDamping = None,
      fixedRotation = None\<rparr>"

definition ready_worker :: PhysicsWorker where
  "ready_worker = init (0, - (982 / 100), 0) (Some 10) new_PhysicsWorker"

definition one_body_worker :: PhysicsWorker where
  "one_body_worker =
     (case createBody 1 (box_options (0, 1, 0)) ready_worker of
        Inr s \<Rightarrow> s | Inl e \<Rightarrow> ready_worker)"

definition demo_scene :: "object_ref \<Rightarrow> Object3D" where
  "demo_scene = (\<lambda>_. \<lparr>position = (Some 0, Some 0, Some 0),
                         quaternion = (Some 0, Some 0, Some 0, Some 1)\<rparr>)"

definition three_objects :: PhysicsWorld where
  "three_objects =
     fst (main_run [AddObject 0 (box_options (0, 1, 0)), AddObject 1 (box_options (0, 2, 0)),
                    AddObject 2 (box_options (0, 3, 0))]
            (fst (new_PhysicsWorld demo_scene)))"

definition demo_events :: "MainEvent list" where
  "demo_events = [AddObject 5 (box_options (0, 1, 0)), SetVelocity 1 (1, 0, 0),
                  AddObject 3 (sphere_options 2)]"

definition demo_props :: PhysicsBodyProperties where
  "demo_props =
     \<lparr>PhysicsBodyProperties.mass = 1, position = (0, 1, 0), quaternion = (0, 0, 0, 1),
      velocity = (0, 0, 0), angularVelocity = (0, 0, 0), fixedRotation = False,
      sleepState = 0, requestId = ''q8''\<rparr>"

definition asking_world :: PhysicsWorld where
  "asking_world =
     fst (snd (getBodyProperties 7 ''q7''
                 (fst (main_run [AddObject 0 (box_options (0, 1, 0))]
                         (fst (new_PhysicsWorld demo_scene))))))"

text \<open>
  A worker with one body whose two arrays hold numbers that are not zero, and the same
  worker after a second body has been created.
\<close>

definition written_worker :: PhysicsWorker where
  "written_worker =
     one_body_worker\<lparr>arrays := (arrays one_body_worker)
        (positions one_body_worker := [1, 2, 3],
         quaternions one_body_worker := [5, 6, 7, 8])\<rparr>"

definition grown_worker :: PhysicsWorker where
  "grown_worker =
     (case createBody 2 (box_options (0, 3, 0)) written_worker of
        Inr s \<Rightarrow> s | Inl e \<Rightarrow> written_worker)"

section \<open>Properties\<close>

lemma bodies_one_body_worker: "bodies one_body_worker = [(1, 0)]"
  by (simp add: one_body_worker_def ready_worker_def createBody_def make_shape_def new_Box_def
      box_options_def init_def new_PhysicsWorker_def resizeArrays_def Let_def)

lemma world_one_body_worker: "world one_body_worker \<noteq> None"
  by (simp add: one_body_worker_def ready_worker_def createBody_def make_shape_def new_Box_def
      box_options_def init_def new_PhysicsWorker_def resizeArrays_def Let_def)

subsection \<open>SetPosition, then GetBodyProperties\<close>

text \<open>
  C7.  For a live body id and a position \<open>p\<close>, the worker that handles
  \<open>SET_POSITION\<close> and then \<open>GET_BODY_PROPS\<close> posts one response, tagged with the request
  id, whose position is \<open>p\<close> itself; the body's position, previous position and
  interpolated position are all \<open>p\<close>.
\<close>

theorem setPosition_getBodyProps:
  assumes "map_of (bodies s) bid = Some r"
  shows "\<exists>s1 props.
           run E [SET_POSITION bid p, GET_BODY_PROPS bid rid] s = Inr (s1, [BODY_PROPS props])
         \<and> PhysicsBodyProperties.position props = p
         \<and> requestId props = rid
         \<and> Body.position (bodyStore s1 r) = p
         \<and> previousPosition (bodyStore s1 r) = p
         \<and> interpolatedPosition (bodyStore s1 r) = p"
  using assms by (simp add: setPosition_def getBodyProps_def)

theorem setPosition_getBodyProps_witness:
  "map_of (bodies one_body_worker) 1 = Some 0 \<and>
   (\<exists>s1 props.
      run demo_Env [SET_POSITION 1 (3, 4, 5), GET_BODY_PROPS 1 ''q1''] one_body_worker
        = Inr (s1, [BODY_PROPS props])
    \<and> PhysicsBodyProperties.position props = (3, 4, 5)
    \<and> requestId props = ''q1''
    \<and> Body.position (bodyStore s1 0) = (3, 4, 5)
    \<and> previousPosition (bodyStore s1 0) = (3, 4, 5)
    \<and> interpolatedPosition (bodyStore s1 0) = (3, 4, 5))"
proof -
  have h: "map_of (bodies one_body_worker) 1 = Some 0"
    by (simp add: bodies_one_body_worker)
  show ?thesis
    using h setPosition_getBodyProps [OF h, of demo_Env "(3, 4, 5)" "''q1''"] by simp
qed

subsection \<open>RemoveBody\<close>

text \<open>
  C8.  \<open>REMOVE_BODY\<close> for an id that is not in the worker's map raises nothing and
  leaves the whole state of the worker, its map and the world included, as it was; and
  handling \<open>REMOVE_BODY\<close> twice for one id gives what handling it once gives.
\<close>

theorem removeBody_unknown_idempotent:
  "(map_of (bodies s) bid = None \<longrightarrow> handleMessage E (REMOVE_BODY bid) s = Inr (s, []))
 \<and> run E [REMOVE_BODY bid, REMOVE_BODY bid] s = run E [REMOVE_BODY bid] s"
  by (auto simp: removeBody_def AList.delete_conv' split: option.splits)

theorem removeBody_unknown_idempotent_witness:
  "map_of (bodies one_body_worker) 7 = None
 \<and> handleMessage demo_Env (REMOVE_BODY 7) one_body_worker = Inr (one_body_worker, [])
 \<and> run demo_Env [REMOVE_BODY 1, REMOVE_BODY 1] one_body_worker
     = run demo_Env [REMOVE_BODY 1] one_body_worker"
  using removeBody_unknown_idempotent [of one_body_worker 7 demo_Env]
    removeBody_unknown_idempotent [of one_body_worker 1 demo_Env]
  by (simp add: bodies_one_body_worker)

subsection \<open>The time step sent by the coordinator\<close>

lemma lastUpdateTime_main_step:
  "\<not> is_Update e \<Longrightarrow> lastUpdateTime (fst (main_step e c)) = lastUpdateTime c"
proof (cases e)
  case (Deliver m)
  then show ?thesis
    by (cases m) (simp_all add: updateObjects_def resolve_def split: option.splits)
qed (simp_all add: addObject_def removeObject_def getBodyProperties_def Let_def)

lemma lastUpdateTime_main_run:
  "list_all (\<lambda>e. \<not> is_Update e) es \<Longrightarrow> lastUpdateTime (fst (main_run es c)) = lastUpdateTime c"
proof (induction es arbitrary: c)
  case Nil
  then show ?case by simp
next
  case (Cons e es)
  then show ?case
    using lastUpdateTime_main_step [of e c]
    by (simp add: split_beta Let_def)
qed

text \<open>
  C2.  Every call of \<^verbatim>\<open>update()\<close> posts one \<open>UPDATE\<close> whose \<open>dt\<close> is at most 1/30.
  Let \<^verbatim>\<open>update()\<close> be called when the clock reads \<open>t0\<close> milliseconds, and next when
  it reads \<open>t1\<close>, with any other calls and deliveries in between.  The \<open>dt\<close> of the
  second call is the elapsed time in seconds, \<open>(t1 - t0) / 1000\<close>, unless that exceeds
  1/30, in which case it is 1/30.
\<close>

theorem update_dt_clamped:
  assumes "list_all (\<lambda>e. \<not> is_Update e) es"
  shows "\<exists>dt0 dt. snd (main_step (Update t0) c) = [UPDATE dt0] \<and> dt0 \<le> 1 / 30
            \<and> snd (main_step (Update t1) (fst (main_run (Update t0 # es) c))) = [UPDATE dt]
            \<and> dt = (if (t1 - t0) / 1000 > 1 / 30 then 1 / 30 else (t1 - t0) / 1000)
            \<and> dt \<le> 1 / 30"
proof -
  have "lastUpdateTime (fst (main_run (Update t0 # es) c)) = t0"
    using lastUpdateTime_main_run [OF assms, of "fst (PhysicsWorld_update t0 c)"]
    by (simp add: split_beta Let_def PhysicsWorld_update_def)
  then show ?thesis
    by (simp add: PhysicsWorld_update_def Let_def)
qed

theorem update_dt_clamped_witness:
  "list_all (\<lambda>e. \<not> is_Update e) [AddObject 0 (box_options (0, 1, 0)), SetVelocity 1 (1, 0, 0)]
 \<and> snd (main_step (Update 1000) (fst (new_PhysicsWorld demo_scene))) = [UPDATE (1 / 30)]
 \<and> snd (main_step (Update 1016)
          (fst (main_run (Update 1000 # [AddObject 0 (box_options (0, 1, 0)),
                                         SetVelocity 1 (1, 0, 0)])
                 (fst (new_PhysicsWorld demo_scene))))) = [UPDATE (2 / 125)]
 \<and> (2 / 125 :: real) \<le> 1 / 30
 \<and> snd (main_step (Update 1500)
          (fst (main_run (Update 1000 # [AddObject 0 (box_options (0, 1, 0)),
                                         SetVelocity 1 (1, 0, 0)])
                 (fst (new_PhysicsWorld demo_scene))))) = [UPDATE (1 / 30)]"
proof -
  have h: "list_all (\<lambda>e. \<not> is_Update e)
             [AddObject 0 (box_options (0, 1, 0)), SetVelocity 1 (1, 0, 0)]"
    by simp
  have l: "lastUpdateTime (fst (new_PhysicsWorld demo_scene)) = 0"
    by (simp add: new_PhysicsWorld_def)
  have a: "snd (main_step (Update 1000) (fst (new_PhysicsWorld demo_scene))) = [UPDATE (1 / 30)]"
    using update_dt_clamped [OF h, of 1000 "fst (new_PhysicsWorld demo_scene)" 1016] l
    by (simp add: PhysicsWorld_update_def Let_def)
  have b: "snd (main_step (Update 1016)
          (fst (main_run (Update 1000 # [AddObject 0 (box_options (0, 1, 0)),
                                         SetVelocity 1 (1, 0, 0)])
                 (fst (new_PhysicsWorld demo_scene))))) = [UPDATE (2 / 125)]"
    using update_dt_clamped [OF h, of 1000 "fst (new_PhysicsWorld demo_scene)" 1016]
    by auto
  have c: "snd (main_step (Update 1500)
          (fst (main_run (Update 1000 # [AddObject 0 (box_options (0, 1, 0)),
                                         SetVelocity 1 (1, 0, 0)])
                 (fst (new_PhysicsWorld demo_scene))))) = [UPDATE (1 / 30)]"
    using update_dt_clamped [OF h, of 1000 "fst (new_PhysicsWorld demo_scene)" 1500]
    by auto
  show ?thesis
    using h a b c by simp
qed

subsection \<open>CreateBody and its configuration errors\<close>

lemma bodies_resizeArrays [simp]: "bodies (resizeArrays s) = bodies s"
  by (simp add: resizeArrays_def Let_def)

lemma bodyStore_resizeArrays [simp]: "bodyStore (resizeArrays s) = bodyStore s"
  by (simp add: resizeArrays_def Let_def)

lemma world_resizeArrays [simp]: "world (resizeArrays s) = world s"
  by (simp add: resizeArrays_def Let_def)

lemma nextBody_resizeArrays [simp]: "nextBody (resizeArrays s) = nextBody s"
  by (simp add: resizeArrays_def Let_def)

lemma make_shape_error:
  "(\<exists>msg. make_shape options = Inl (Error msg)) \<longleftrightarrow> rejected_shape options"
  by (auto simp: make_shape_def rejected_shape_def new_Sphere_def
      split: PhysicsShapeType.splits option.splits prod.splits)

lemma make_shape_Inl: "make_shape options = Inl e \<Longrightarrow> \<exists>msg. e = Error msg"
  by (auto simp: make_shape_def new_Sphere_def
      split: PhysicsShapeType.splits option.splits prod.splits if_splits)

text \<open>
  C3, as the code has it.  \<^verbatim>\<open>createBody\<close> raises a configuration error exactly when a
  box has no size, a sphere has no radius or a radius that is not positive, or the tag
  is none of box, sphere and plane; what the three numbers of a size are is not looked
  at.  For all other options, and so for every plane, a worker whose world is
  initialised builds the body and stores it in the map under the given id.
\<close>

theorem createBody_configuration_error:
  "((\<exists>msg. createBody bid options s = Inl (Error msg)) \<longleftrightarrow> rejected_shape options)
 \<and> (world s \<noteq> None \<and> \<not> rejected_shape options \<longrightarrow>
      (\<exists>s1 shape. createBody bid options s = Inr s1
          \<and> map_of (bodies s1) bid = Some (nextBody s)
          \<and> make_shape options = Inr shape
          \<and> bodyStore s1 (nextBody s) = make_body options shape))"
proof (cases "make_shape options")
  case (Inl e)
  then obtain msg where "e = Error msg" using make_shape_Inl by blast
  with Inl show ?thesis
    using make_shape_error [of options] by (auto simp: createBody_def)
next
  case (Inr shape)
  then have "\<not> rejected_shape options"
    using make_shape_error [of options] by auto
  with Inr show ?thesis
    by (auto simp: createBody_def Let_def AList.update_conv' split: option.splits)
qed

theorem createBody_configuration_error_witness:
  "(\<exists>msg. createBody 2 (sphere_options 0) one_body_worker = Inl (Error msg))
 \<and> rejected_shape (sphere_options 0)
 \<and> (\<exists>msg. createBody 2 (sphere_options (- 1)) one_body_worker = Inl (Error msg))
 \<and> rejected_shape (sphere_options (- 1))
 \<and> world one_body_worker \<noteq> None \<and> \<not> rejected_shape (box_options (0, 3, 0))
 \<and> (\<exists>s1 shape. createBody 2 (box_options (0, 3, 0)) one_body_worker = Inr s1
        \<and> map_of (bodies s1) 2 = Some (nextBody one_body_worker)
        \<and> make_shape (box_options (0, 3, 0)) = Inr shape
        \<and> bodyStore s1 (nextBody one_body_worker) = make_body (box_options (0, 3, 0)) shape)"
proof -
  have h1: "rejected_shape (sphere_options 0)" "rejected_shape (sphere_options (- 1))"
    by (simp_all add: rejected_shape_def sphere_options_def)
  have h2: "\<not> rejected_shape (box_options (0, 3, 0))"
    by (simp add: rejected_shape_def box_options_def)
  show ?thesis
    using h1 h2 world_one_body_worker
      createBody_configuration_error [of 2 "sphere_options 0" one_body_worker]
      createBody_configuration_error [of 2 "sphere_options (- 1)" one_body_worker]
      createBody_configuration_error [of 2 "box_options (0, 3, 0)" one_body_worker]
    by simp
qed

text \<open>
  The claim as stated fails for a box of size \<open>(2, 0, -1)\<close>: the options violate the
  invariant, and the body is created.
\<close>

theorem createBody_configuration_error_counterexample:
  "violates_shape_invariant (sized_box_options (2, 0, - 1))
 \<and> \<not> isl (createBody 1 (sized_box_options (2, 0, - 1)) ready_worker)
 \<and> map_of (bodies (projr (createBody 1 (sized_box_options (2, 0, - 1)) ready_worker))) 1 = Some 0"
  by (simp add: violates_shape_invariant_def sized_box_options_def createBody_def make_shape_def new_Box_def
      ready_worker_def init_def new_PhysicsWorker_def Let_def)

subsection \<open>Commands before Initialize\<close>

lemma handleMessage_new:
  "\<not> is_INIT m \<Longrightarrow> \<not> needs_world m \<Longrightarrow>
     handleMessage E m new_PhysicsWorker = Inr (new_PhysicsWorker, [])"
  by (cases m) (simp_all add: new_PhysicsWorker_def removeBody_def applyForce_def
      applyImpulse_def setPosition_def setVelocity_def getBodyProps_def)

lemma handleMessage_new_raises:
  "needs_world m \<Longrightarrow> isl (handleMessage E m new_PhysicsWorker)"
  by (cases m) (simp_all add: new_PhysicsWorker_def createBody_def update_def Let_def
      split: sum.splits)

text \<open>
  C4, as the code has it.  While no \<open>INIT\<close> has been handled, \<open>ADD_BODY\<close> and \<open>UPDATE\<close>
  raise; every other command (\<open>REMOVE_BODY\<close>, \<open>APPLY_FORCE\<close>, \<open>APPLY_IMPULSE\<close>,
  \<open>SET_POSITION\<close>, \<open>SET_VELOCITY\<close>, \<open>GET_BODY_PROPS\<close>, an unknown tag) raises nothing,
  leaves the worker as its constructor made it and posts nothing.
\<close>

theorem before_init:
  assumes "list_all (\<lambda>m. \<not> is_INIT m) ms"
  shows "(list_ex needs_world ms \<longrightarrow> isl (run E ms new_PhysicsWorker))
       \<and> (\<not> list_ex needs_world ms \<longrightarrow> run E ms new_PhysicsWorker = Inr (new_PhysicsWorker, []))"
  using assms
proof (induction ms)
  case Nil
  then show ?case by simp
next
  case (Cons m ms)
  show ?case
  proof (cases "needs_world m")
    case True
    then show ?thesis
      using handleMessage_new_raises [of m E] by (auto split: sum.splits)
  next
    case False
    then show ?thesis
      using Cons handleMessage_new [of m E] by (auto split: sum.splits)
  qed
qed

theorem before_init_witness:
  "list_all (\<lambda>m. \<not> is_INIT m) [SET_POSITION 1 (0, 0, 0), UPDATE (1 / 60)]
 \<and> list_ex needs_world [SET_POSITION 1 (0, 0, 0), UPDATE (1 / 60)]
 \<and> isl (run demo_Env [SET_POSITION 1 (0, 0, 0), UPDATE (1 / 60)] new_PhysicsWorker)
 \<and> list_all (\<lambda>m. \<not> is_INIT m) [REMOVE_BODY 1, GET_BODY_PROPS 2 ''q'']
 \<and> \<not> list_ex needs_world [REMOVE_BODY 1, GET_BODY_PROPS 2 ''q'']
 \<and> run demo_Env [REMOVE_BODY 1, GET_BODY_PROPS 2 ''q''] new_PhysicsWorker
     = Inr (new_PhysicsWorker, [])"
proof -
  have h1: "list_all (\<lambda>m. \<not> is_INIT m) [SET_POSITION 1 (0, 0, 0), UPDATE (1 / 60)]"
    by simp
  have h2: "list_all (\<lambda>m. \<not> is_INIT m) [REMOVE_BODY 1, GET_BODY_PROPS 2 ''q'']"
    by simp
  show ?thesis
    using before_init [OF h1, of demo_Env] before_init [OF h2, of demo_Env] by simp
qed

text \<open>
  The claim as stated fails for \<open>REMOVE_BODY\<close>: handled by a worker that has seen no
  \<open>INIT\<close>, it raises nothing.
\<close>

theorem before_init_counterexample:
  "handleMessage demo_Env (REMOVE_BODY 1) new_PhysicsWorker = Inr (new_PhysicsWorker, [])"
  by (simp add: removeBody_def new_PhysicsWorker_def)

subsection \<open>A frame shorter than the coordinator's map\<close>

lemma updateObjects_loop_other:
  "r \<notin> snd ` set es \<Longrightarrow> updateObjects_loop ps qs es i h r = h r"
  by (induction es arbitrary: i h) (auto simp: Let_def)

lemma updateObjects_loop_nth:
  "distinct (map snd es) \<Longrightarrow> j < length es \<Longrightarrow>
     updateObjects_loop ps qs es i h (snd (es ! j)) =
       (if (i + j) * 3 < length ps \<and> (i + j) * 4 < length qs
        then setTransform ps qs (i + j) (h (snd (es ! j)))
        else h (snd (es ! j)))"
proof (induction es arbitrary: i h j)
  case Nil
  then show ?case by simp
next
  case (Cons e es)
  show ?case
  proof (cases j)
    case 0
    with Cons.prems show ?thesis
      by (simp add: Let_def updateObjects_loop_other)
  next
    case (Suc k)
    with Cons.prems have k: "k < length es" and d: "distinct (map snd es)"
      and ne: "snd (es ! k) \<noteq> snd e"
      by (auto simp: image_iff) (metis nth_mem)
    show ?thesis
      using Cons.IH [OF d k, of "i + 1"] ne Suc by (simp add: Let_def)
  qed
qed

lemma setTransform_in_range:
  "i * 3 + 2 < length ps \<Longrightarrow> i * 4 + 3 < length qs \<Longrightarrow>
     setTransform ps qs i ob =
       ob\<lparr>position := some3 (triple ps i), quaternion := some4 (quadruple qs i)\<rparr>"
  by (simp add: setTransform_def Vector3_set_def Quaternion_set_def Float32Array_get_def
      some3_def some4_def triple_def quadruple_def)

lemma objects_three_objects: "objects three_objects = [(1, 0), (2, 1), (3, 2)]"
  by (simp add: three_objects_def new_PhysicsWorld_def addObject_def Let_def)

text \<open>
  C10.  The coordinator receives a frame of \<open>K\<close> entries while its map holds more than
  \<open>K\<close> pairwise different objects.  The map is unchanged; the object at every index
  below \<open>K\<close> gets the position and orientation of that entry, every component a number
  of the frame (nothing is read beyond the end of an array); the object at every index
  from \<open>K\<close> on keeps the position and orientation it had.
\<close>

theorem onSync_short_frame:
  assumes "length ps = K * 3" and "length qs = K * 4"
    and "K < length (objects c)" and "distinct (map snd (objects c))"
  shows "objects (PhysicsWorld_handleMessage (SYNC ps qs) c) = objects c
       \<and> (\<forall>i < K. object3Ds (PhysicsWorld_handleMessage (SYNC ps qs) c) (snd (objects c ! i))
                     = (object3Ds c (snd (objects c ! i)))
                         \<lparr>position := some3 (triple ps i),
                          quaternion := some4 (quadruple qs i)\<rparr>)
       \<and> (\<forall>i. K \<le> i \<and> i < length (objects c) \<longrightarrow>
              object3Ds (PhysicsWorld_handleMessage (SYNC ps qs) c) (snd (objects c ! i))
                = object3Ds c (snd (objects c ! i)))"
proof -
  have upd: "object3Ds (PhysicsWorld_handleMessage (SYNC ps qs) c) (snd (objects c ! i)) =
          (if i * 3 < length ps \<and> i * 4 < length qs
           then setTransform ps qs i (object3Ds c (snd (objects c ! i)))
           else object3Ds c (snd (objects c ! i)))"
    if "i < length (objects c)" for i
    using updateObjects_loop_nth [OF assms(4) that, of ps qs 0 "object3Ds c"]
    by (simp add: updateObjects_def)
  have lo: "object3Ds (PhysicsWorld_handleMessage (SYNC ps qs) c) (snd (objects c ! i))
                     = (object3Ds c (snd (objects c ! i)))
                         \<lparr>position := some3 (triple ps i),
                          quaternion := some4 (quadruple qs i)\<rparr>" if "i < K" for i
  proof -
    have "i < length (objects c)" using that assms(3) by simp
    moreover have "i * 3 + 2 < length ps" "i * 4 + 3 < length qs"
      using that assms(1,2) by simp_all
    ultimately show ?thesis
      using upd [of i] setTransform_in_range [of i ps qs] by simp
  qed
  have hi: "object3Ds (PhysicsWorld_handleMessage (SYNC ps qs) c) (snd (objects c ! i))
                = object3Ds c (snd (objects c ! i))"
    if "K \<le> i" "i < length (objects c)" for i
    using upd [OF that(2)] that(1) assms(1) by simp
  show ?thesis
    using lo hi by (simp add: updateObjects_def)
qed

theorem onSync_short_frame_witness:
  "length [1, 2, 3 :: real] = 1 * 3 \<and> length [0, 0, 0, 1 :: real] = 1 * 4
 \<and> 1 < length (objects three_objects) \<and> distinct (map snd (objects three_objects))
 \<and> objects (PhysicsWorld_handleMessage (SYNC [1, 2, 3] [0, 0, 0, 1]) three_objects)
     = [(1, 0), (2, 1), (3, 2)]
 \<and> object3Ds (PhysicsWorld_handleMessage (SYNC [1, 2, 3] [0, 0, 0, 1]) three_objects) 0
     = \<lparr>position = (Some 1, Some 2, Some 3), quaternion = (Some 0, Some 0, Some 0, Some 1)\<rparr>
 \<and> object3Ds (PhysicsWorld_handleMessage (SYNC [1, 2, 3] [0, 0, 0, 1]) three_objects) 1
     = object3Ds three_objects 1
 \<and> object3Ds (PhysicsWorld_handleMessage (SYNC [1, 2, 3] [0, 0, 0, 1]) three_objects) 2
     = object3Ds three_objects 2"
proof -
  have h1: "length [1, 2, 3 :: real] = 1 * 3" and h2: "length [0, 0, 0, 1 :: real] = 1 * 4"
    by simp_all
  have h3: "1 < length (objects three_objects)"
    and h4: "distinct (map snd (objects three_objects))"
    by (simp_all add: objects_three_objects)
  note t = onSync_short_frame [OF h1 h2 h3 h4]
  have o: "object3Ds three_objects 0
             = \<lparr>position = (Some 0, Some 0, Some 0), quaternion = (Some 0, Some 0, Some 0, Some 1)\<rparr>"
    by (simp add: three_objects_def new_PhysicsWorld_def addObject_def Let_def demo_scene_def)
  have a: "objects (PhysicsWorld_handleMessage (SYNC [1, 2, 3] [0, 0, 0, 1]) three_objects)
             = [(1, 0), (2, 1), (3, 2)]"
    using t by (simp add: objects_three_objects)
  have b: "object3Ds (PhysicsWorld_handleMessage (SYNC [1, 2, 3] [0, 0, 0, 1]) three_objects) 0
     = \<lparr>position = (Some 1, Some 2, Some 3), quaternion = (Some 0, Some 0, Some 0, Some 1)\<rparr>"
    using conjunct1 [OF conjunct2 [OF t], rule_format, of 0]
    by (simp add: objects_three_objects o some3_def some4_def triple_def quadruple_def)
  have c: "object3Ds (PhysicsWorld_handleMessage (SYNC [1, 2, 3] [0, 0, 0, 1]) three_objects) 1
     = object3Ds three_objects 1"
    using conjunct2 [OF conjunct2 [OF t], rule_format, of 1]
    by (simp add: objects_three_objects)
  have d: "object3Ds (PhysicsWorld_handleMessage (SYNC [1, 2, 3] [0, 0, 0, 1]) three_objects) 2
     = object3Ds three_objects 2"
    using conjunct2 [OF conjunct2 [OF t], rule_format, of 2]
    by (simp add: objects_three_objects)
  show ?thesis
    using h1 h2 h3 h4 a b c d by blast
qed

subsection \<open>The loop of update\<close>

lemma length_copyBodies [simp]:
  "length (fst (copyBodies E h es i ps qs)) = length ps"
  "length (snd (copyBodies E h es i ps qs)) = length qs"
  by (induction es arbitrary: i ps qs) (simp_all add: Let_def)

lemma copyBodies_below:
  "k < i * 3 \<Longrightarrow> fst (copyBodies E h es i ps qs) ! k = ps ! k"
  "m < i * 4 \<Longrightarrow> snd (copyBodies E h es i ps qs) ! m = qs ! m"
  by (induction es arbitrary: i ps qs) (simp_all add: Let_def)

lemma triple_below:
  "j < i \<Longrightarrow> triple (fst (copyBodies E h es i ps qs)) j = triple ps j"
  by (simp add: triple_def copyBodies_below)

lemma quadruple_below:
  "j < i \<Longrightarrow> quadruple (snd (copyBodies E h es i ps qs)) j = quadruple qs j"
  by (simp add: quadruple_def copyBodies_below)

lemma copyBodies_nth:
  "(i + length es) * 3 \<le> length ps \<Longrightarrow> (i + length es) * 4 \<le> length qs \<Longrightarrow> j < length es \<Longrightarrow>
     triple (fst (copyBodies E h es i ps qs)) (i + j) = fround3 E (Body.position (h (snd (es ! j))))
   \<and> quadruple (snd (copyBodies E h es i ps qs)) (i + j)
       = fround4 E (Body.quaternion (h (snd (es ! j))))"
proof (induction es arbitrary: i ps qs j)
  case Nil
  then show ?case by simp
next
  case (Cons e es)
  show ?case
  proof (cases j)
    case 0
    have "i * 3 + 2 < length ps" "i * 4 + 3 < length qs"
      using Cons.prems by simp_all
    then show ?thesis
      using 0 by (simp add: Let_def triple_below quadruple_below)
        (simp add: triple_def quadruple_def fround3_def fround4_def)
  next
    case (Suc k)
    then show ?thesis
      using Cons.IH [of "i + 1" _ _ k] Cons.prems by (simp add: Let_def)
  qed
qed

subsection \<open>Invariants of the worker\<close>

lemma refs_ok_new: "refs_ok new_PhysicsWorker"
  by (simp add: refs_ok_def new_PhysicsWorker_def)

lemma capacity_ok_new: "capacity_ok new_PhysicsWorker"
  by (simp add: capacity_ok_def new_PhysicsWorker_def)

lemma refs_ok_resizeArrays: "refs_ok s \<Longrightarrow> refs_ok (resizeArrays s)"
  by (auto simp: refs_ok_def resizeArrays_def Let_def)

lemma capacity_ok_resizeArrays: "refs_ok s \<Longrightarrow> capacity_ok (resizeArrays s)"
  by (auto simp: refs_ok_def capacity_ok_def resizeArrays_def Let_def Float32Array_set_def
      new_Float32Array_def)

lemma resizeArrays_grows:
  assumes "refs_ok s"
  shows "length (arrays s (positions s)) \<le> length (arrays (resizeArrays s) (positions (resizeArrays s)))"
    and "length (arrays s (quaternions s)) \<le> length (arrays (resizeArrays s) (quaternions (resizeArrays s)))"
    and "take (length (arrays s (positions s))) (arrays (resizeArrays s) (positions (resizeArrays s)))
           = arrays s (positions s)"
    and "take (length (arrays s (quaternions s))) (arrays (resizeArrays s) (quaternions (resizeArrays s)))
           = arrays s (quaternions s)"
  using assms
  by (auto simp: refs_ok_def resizeArrays_def Let_def Float32Array_set_def new_Float32Array_def)

lemma retired_resizeArrays:
  "retired s r \<Longrightarrow> retired (resizeArrays s) r \<and> arrays (resizeArrays s) r = arrays s r"
  by (auto simp: retired_def resizeArrays_def Let_def)

lemma handleMessage_invariants:
  assumes "handleMessage E m s = Inr (s1, out)" and "refs_ok s" and "capacity_ok s"
  shows "refs_ok s1 \<and> capacity_ok s1"
proof (cases m)
  case (ADD_BODY bid options)
  with assms(1) obtain shape w where s1: "s1 = resizeArrays (s\<lparr>bodyStore := (bodyStore s)(nextBody s := make_body options shape),
                              nextBody := Suc (nextBody s),
                              world := Some (World_addBody (nextBody s) w),
                              bodies := AList.update bid (nextBody s) (bodies s)\<rparr>)"
    by (auto simp: createBody_def Let_def split: sum.splits option.splits)
  have "refs_ok (s\<lparr>bodyStore := (bodyStore s)(nextBody s := make_body options shape),
                              nextBody := Suc (nextBody s),
                              world := Some (World_addBody (nextBody s) w),
                              bodies := AList.update bid (nextBody s) (bodies s)\<rparr>)"
    using assms(2) by (simp add: refs_ok_def)
  then show ?thesis
    unfolding s1 by (simp add: refs_ok_resizeArrays capacity_ok_resizeArrays)
next
  case (REMOVE_BODY bid)
  have "length (AList.delete bid (bodies s)) \<le> length (bodies s)"
    by (simp add: AList.delete_eq)
  with assms REMOVE_BODY show ?thesis
    by (auto simp: removeBody_def refs_ok_def capacity_ok_def split: option.splits)
next
  case (UPDATE dt)
  with assms show ?thesis
    by (auto simp: update_def sync_def Let_def refs_ok_def capacity_ok_def new_Float32Array_def
        split: option.splits prod.splits)
qed (use assms in \<open>auto simp: refs_ok_def capacity_ok_def init_def applyForce_def applyImpulse_def
      setPosition_def setVelocity_def Let_def split: option.splits\<close>)

lemma run_Cons_Inr:
  "run E (m # ms) s = Inr (s2, out) \<Longrightarrow>
     \<exists>s1 out1 out2. handleMessage E m s = Inr (s1, out1) \<and> run E ms s1 = Inr (s2, out2)
        \<and> out = out1 @ out2"
  by (auto split: sum.splits)

lemma run_append:
  "run E (ms @ ms') s =
     (case run E ms s of
        Inl e \<Rightarrow> Inl e
      | Inr (s1, out1) \<Rightarrow>
          (case run E ms' s1 of
             Inl e \<Rightarrow> Inl e
           | Inr (s2, out2) \<Rightarrow> Inr (s2, out1 @ out2)))"
  by (induction ms arbitrary: s) (auto split: sum.splits)

lemma run_invariants:
  "run E ms s = Inr (s1, out) \<Longrightarrow> refs_ok s \<Longrightarrow> capacity_ok s \<Longrightarrow> refs_ok s1 \<and> capacity_ok s1"
proof (induction ms arbitrary: s out)
  case Nil
  then show ?case by simp
next
  case (Cons m ms)
  from run_Cons_Inr [OF Cons.prems(1)] obtain s' out1 out2 where
    h: "handleMessage E m s = Inr (s', out1)" and r: "run E ms s' = Inr (s1, out2)"
    by blast
  have "refs_ok s' \<and> capacity_ok s'"
    using handleMessage_invariants [OF h Cons.prems(2,3)] .
  then show ?case
    using Cons.IH [OF r] by blast
qed

lemma reachable_invariants:
  "run E ms new_PhysicsWorker = Inr (s, out) \<Longrightarrow> refs_ok s \<and> capacity_ok s"
  using run_invariants refs_ok_new capacity_ok_new by blast

subsection \<open>One update, one frame\<close>

lemma update_frame:
  assumes w: "world s = Some w" and r: "refs_ok s" and c: "capacity_ok s"
  shows "\<exists>s1 ps qs w1.
           update E dt s = Inr (s1, [SYNC ps qs])
         \<and> world s1 = Some w1 \<and> (w1, bodyStore s1) = world_step E dt w (bodyStore s)
         \<and> bodies s1 = bodies s \<and> nextBody s1 = nextBody s
         \<and> length ps = length (arrays s (positions s))
         \<and> length qs = length (arrays s (quaternions s))
         \<and> (\<forall>i < length (bodies s).
                triple ps i = fround3 E (Body.position (bodyStore s1 (snd (bodies s ! i))))
              \<and> quadruple qs i = fround4 E (Body.quaternion (bodyStore s1 (snd (bodies s ! i)))))
         \<and> positions s1 = nextArray s \<and> quaternions s1 = Suc (nextArray s)
         \<and> nextArray s1 = Suc (Suc (nextArray s))
         \<and> arrays s1 (positions s) = [] \<and> arrays s1 (quaternions s) = []
         \<and> arrays s1 (positions s1) = new_Float32Array (length (bodies s) * 3)
         \<and> arrays s1 (quaternions s1) = new_Float32Array (length (bodies s) * 4)"
proof -
  obtain w1 h1 where st: "world_step E dt w (bodyStore s) = (w1, h1)"
    by (cases "world_step E dt w (bodyStore s)")
  obtain ps qs where cp: "copyBodies E h1 (bodies s) 0 (arrays s (positions s))
                            (arrays s (quaternions s)) = (ps, qs)"
    by (cases "copyBodies E h1 (bodies s) 0 (arrays s (positions s)) (arrays s (quaternions s))")
  have len: "length ps = length (arrays s (positions s))"
    "length qs = length (arrays s (quaternions s))"
    using length_copyBodies [of E h1 "bodies s" 0 "arrays s (positions s)" "arrays s (quaternions s)"]
    by (simp_all add: cp)
  have ent: "triple ps i = fround3 E (Body.position (h1 (snd (bodies s ! i))))
           \<and> quadruple qs i = fround4 E (Body.quaternion (h1 (snd (bodies s ! i))))"
    if "i < length (bodies s)" for i
    using copyBodies_nth [of 0 "bodies s" "arrays s (positions s)" "arrays s (quaternions s)" i E h1]
      that c by (simp add: cp capacity_ok_def)
  have ne: "positions s \<noteq> quaternions s" "positions s < nextArray s" "quaternions s < nextArray s"
    using r by (simp_all add: refs_ok_def)
  have "update E dt s = Inr (sync (s\<lparr>world := Some w1, bodyStore := h1,
                      arrays := (arrays s)(positions s := ps, quaternions s := qs)\<rparr>))"
    by (simp add: update_def w st cp)
  then show ?thesis
    using st len ent ne by (simp add: sync_def Let_def)
qed

lemma createBody_Inr:
  assumes "createBody bid options s = Inr s1"
  shows "\<exists>shape w. make_shape options = Inr shape \<and> world s = Some w
          \<and> s1 = resizeArrays (s\<lparr>bodyStore := (bodyStore s)(nextBody s := make_body options shape),
                              nextBody := Suc (nextBody s),
                              world := Some (World_addBody (nextBody s) w),
                              bodies := AList.update bid (nextBody s) (bodies s)\<rparr>)"
  using assms by (auto simp: createBody_def Let_def split: sum.splits option.splits)

lemma fst_nth_update:
  "i < length al \<Longrightarrow> fst (AList.update k v al ! i) = fst (al ! i)"
  by (induction al arbitrary: i) (auto simp: nth_Cons')


lemma handleMessage_retired:
  assumes "handleMessage E m s = Inr (s1, out)" and "retired s r"
  shows "retired s1 r \<and> arrays s1 r = arrays s r"
proof (cases m)
  case (ADD_BODY bid options)
  with assms(1) have "createBody bid options s = Inr s1"
    by (auto split: sum.splits)
  from createBody_Inr [OF this] obtain shape w where
    s1: "s1 = resizeArrays (s\<lparr>bodyStore := (bodyStore s)(nextBody s := make_body options shape),
                              nextBody := Suc (nextBody s),
                              world := Some (World_addBody (nextBody s) w),
                              bodies := AList.update bid (nextBody s) (bodies s)\<rparr>)"
    by blast
  have "retired (s\<lparr>bodyStore := (bodyStore s)(nextBody s := make_body options shape),
                              nextBody := Suc (nextBody s),
                              world := Some (World_addBody (nextBody s) w),
                              bodies := AList.update bid (nextBody s) (bodies s)\<rparr>) r"
    using assms(2) by (simp add: retired_def)
  from retired_resizeArrays [OF this] show ?thesis
    by (simp add: s1)
next
  case (UPDATE dt)
  with assms show ?thesis
    by (auto simp: update_def sync_def Let_def retired_def split: option.splits prod.splits)
qed (use assms in \<open>auto simp: retired_def init_def removeBody_def applyForce_def applyImpulse_def
      setPosition_def setVelocity_def Let_def split: option.splits\<close>)

lemma run_retired:
  "run E ms s = Inr (s1, out) \<Longrightarrow> retired s r \<Longrightarrow> retired s1 r \<and> arrays s1 r = arrays s r"
proof (induction ms arbitrary: s out)
  case Nil
  then show ?case by simp
next
  case (Cons m ms)
  from run_Cons_Inr [OF Cons.prems(1)] obtain s' out1 out2 where
    h: "handleMessage E m s = Inr (s', out1)" and r: "run E ms s' = Inr (s1, out2)"
    by blast
  have "retired s' r \<and> arrays s' r = arrays s r"
    using handleMessage_retired [OF h Cons.prems(2)] .
  then show ?case
    using Cons.IH [OF r] by simp
qed


subsection \<open>Runs that remove no body\<close>

lemma update_new_key:
  "k \<notin> fst ` set al \<Longrightarrow> AList.update k v al = al @ [(k, v)]"
  by (induction al) auto

lemma createBody_succeeds:
  assumes "world s = Some w" and "\<not> rejected_shape options"
  shows "\<exists>shape. make_shape options = Inr shape
          \<and> createBody bid options s =
              Inr (resizeArrays (s\<lparr>bodyStore := (bodyStore s)(nextBody s := make_body options shape),
                              nextBody := Suc (nextBody s),
                              world := Some (World_addBody (nextBody s) w),
                              bodies := AList.update bid (nextBody s) (bodies s)\<rparr>))"
proof (cases "make_shape options")
  case (Inl e)
  then show ?thesis
    using make_shape_Inl [OF Inl] make_shape_error [of options] assms(2) by auto
next
  case (Inr shape)
  then show ?thesis
    using assms(1) by (simp add: createBody_def Let_def)
qed

lemma exact_ok_resizeArrays:
  assumes "refs_ok s"
    and "length (arrays s (positions s)) \<le> length (bodies s) * 3"
    and "length (arrays s (quaternions s)) \<le> length (bodies s) * 4"
  shows "exact_ok (resizeArrays s)"
  using assms
  by (auto simp: refs_ok_def exact_ok_def resizeArrays_def Let_def Float32Array_set_def
      new_Float32Array_def)

lemma exact_capacity: "exact_ok s \<Longrightarrow> capacity_ok s"
  by (simp add: exact_ok_def capacity_ok_def)

lemma handleMessage_ok_command:
  assumes ok: "ok_command m" and w: "world s \<noteq> None" and r: "refs_ok s" and x: "exact_ok s"
    and fresh: "set (created [m]) \<inter> fst ` set (bodies s) = {}"
  shows "\<exists>s1 out. handleMessage E m s = Inr (s1, out)
          \<and> world s1 \<noteq> None \<and> refs_ok s1 \<and> exact_ok s1
          \<and> map fst (bodies s1) = map fst (bodies s) @ created [m]
          \<and> map snd (bodies s1) = map snd (bodies s) @ [nextBody s ..< nextBody s + length (created [m])]
          \<and> nextBody s1 = nextBody s + length (created [m])"
proof (cases m)
  case (ADD_BODY bid options)
  from w obtain wd where wd: "world s = Some wd" by auto
  have nl: "\<not> rejected_shape options" using ok ADD_BODY by simp
  have nk: "bid \<notin> fst ` set (bodies s)" using fresh ADD_BODY by simp
  define t where "t = (\<lambda>shape. s\<lparr>bodyStore := (bodyStore s)(nextBody s := make_body options shape),
                              nextBody := Suc (nextBody s),
                              world := Some (World_addBody (nextBody s) wd),
                              bodies := AList.update bid (nextBody s) (bodies s)\<rparr>)"
  from createBody_succeeds [OF wd nl, of bid] obtain shape where
    cb: "createBody bid options s = Inr (resizeArrays (t shape))"
    by (auto simp: t_def)
  have bt: "bodies (t shape) = bodies s @ [(bid, nextBody s)]"
    by (simp add: t_def update_new_key [OF nk])
  have rt: "refs_ok (t shape)" using r by (simp add: refs_ok_def t_def)
  have "exact_ok (resizeArrays (t shape))"
    using x by (intro exact_ok_resizeArrays [OF rt]) (simp_all add: bt, simp_all add: t_def exact_ok_def)
  moreover have "refs_ok (resizeArrays (t shape))"
    using rt by (rule refs_ok_resizeArrays)
  moreover have "world (resizeArrays (t shape)) \<noteq> None" "nextBody (resizeArrays (t shape)) = Suc (nextBody s)"
    by (simp_all add: t_def)
  ultimately show ?thesis
    using ADD_BODY cb bt by simp
next
  case (REMOVE_BODY bid)
  with ok show ?thesis by simp
next
  case (UPDATE dt)
  from w obtain wd where wd: "world s = Some wd" by auto
  from update_frame [OF wd r exact_capacity [OF x], of E dt] obtain s1 ps qs where
    "update E dt s = Inr (s1, [SYNC ps qs])" "world s1 \<noteq> None" "bodies s1 = bodies s"
    "nextBody s1 = nextBody s"
    "positions s1 = nextArray s" "quaternions s1 = Suc (nextArray s)"
    "nextArray s1 = Suc (Suc (nextArray s))"
    "arrays s1 (positions s1) = new_Float32Array (length (bodies s) * 3)"
    "arrays s1 (quaternions s1) = new_Float32Array (length (bodies s) * 4)"
    by auto
  then show ?thesis
    using UPDATE by (simp add: refs_ok_def exact_ok_def new_Float32Array_def)
qed (use w r x in \<open>auto simp: refs_ok_def exact_ok_def init_def applyForce_def applyImpulse_def
      setPosition_def setVelocity_def Let_def split: option.splits\<close>)

lemma created_Cons: "created (m # ms) = created [m] @ created ms"
  by (cases m) simp_all

lemma created_append: "created (ms @ ms') = created ms @ created ms'"
proof (induction ms)
  case Nil
  then show ?case by simp
next
  case (Cons m ms)
  then show ?case
    using created_Cons [of m "ms @ ms'"] created_Cons [of m ms] by simp
qed

lemma run_ok_commands:
  assumes "list_all ok_command ms" and "world s \<noteq> None" and "refs_ok s" and "exact_ok s"
    and "distinct (map fst (bodies s) @ created ms)"
  shows "\<exists>s1 out. run E ms s = Inr (s1, out)
          \<and> world s1 \<noteq> None \<and> refs_ok s1 \<and> exact_ok s1
          \<and> map fst (bodies s1) = map fst (bodies s) @ created ms
          \<and> map snd (bodies s1) = map snd (bodies s) @ [nextBody s ..< nextBody s + length (created ms)]
          \<and> nextBody s1 = nextBody s + length (created ms)"
  using assms
proof (induction ms arbitrary: s)
  case Nil
  then show ?case by simp
next
  case (Cons m ms)
  have cm: "created (m # ms) = created [m] @ created ms"
    by (rule created_Cons)
  have fresh: "set (created [m]) \<inter> fst ` set (bodies s) = {}"
    using Cons.prems(5) by (auto simp: cm)
  have okm: "ok_command m" and okms: "list_all ok_command ms"
    using Cons.prems(1) by simp_all
  from handleMessage_ok_command [OF okm Cons.prems(2,3,4) fresh, of E] obtain s1 out1 where
    h: "handleMessage E m s = Inr (s1, out1)"
    and i1: "world s1 \<noteq> None" "refs_ok s1" "exact_ok s1"
    and b1: "map fst (bodies s1) = map fst (bodies s) @ created [m]"
      "map snd (bodies s1) = map snd (bodies s) @ [nextBody s ..< nextBody s + length (created [m])]"
      "nextBody s1 = nextBody s + length (created [m])"
    by blast
  have d1: "distinct (map fst (bodies s1) @ created ms)"
    using Cons.prems(5) by (simp add: b1 cm)
  from Cons.IH [OF okms i1 d1] obtain s2 out2 where
    r: "run E ms s1 = Inr (s2, out2)"
    and i2: "world s2 \<noteq> None" "refs_ok s2" "exact_ok s2"
    and b2: "map fst (bodies s2) = map fst (bodies s1) @ created ms"
      "map snd (bodies s2) = map snd (bodies s1) @ [nextBody s1 ..< nextBody s1 + length (created ms)]"
      "nextBody s2 = nextBody s1 + length (created ms)"
    by blast
  have u: "[nextBody s ..< nextBody s + length (created [m])]
             @ [nextBody s1 ..< nextBody s1 + length (created ms)]
           = [nextBody s ..< nextBody s + length (created (m # ms))]"
    using upt_add_eq_append [of "nextBody s" "nextBody s + length (created [m])"
        "length (created ms)"]
    by (simp add: b1(3) cm add.assoc)
  have "run E (m # ms) s = Inr (s2, out1 @ out2)"
    using h r by simp
  moreover have "map snd (bodies s2) = map snd (bodies s)
                   @ [nextBody s ..< nextBody s + length (created (m # ms))]"
    using b2(2) b1(2) u by simp
  ultimately show ?case
    using i2 b2(1,3) b1(1,3) cm by (intro exI [of _ s2] exI [of _ "out1 @ out2"]) simp
qed

subsection \<open>The example states\<close>

lemma run_one_body_worker:
  "run E [INIT (0, - (982 / 100), 0) (Some 10), ADD_BODY 1 (box_options (0, 1, 0))]
     new_PhysicsWorker = Inr (one_body_worker, [])"
proof -
  have "world ready_worker = Some \<lparr>gravity = (0, - (982 / 100), 0), iterations = 10,
          allowSleep = True, World.bodies = []\<rparr>"
    by (simp add: ready_worker_def init_def)
  moreover have "\<not> rejected_shape (box_options (0, 1, 0))"
    by (simp add: rejected_shape_def box_options_def)
  ultimately obtain s1 where "createBody 1 (box_options (0, 1, 0)) ready_worker = Inr s1"
    using createBody_succeeds by blast
  then show ?thesis
    by (simp add: one_body_worker_def ready_worker_def)
qed

lemma world_one_body_worker_eq:
  "world one_body_worker = Some \<lparr>gravity = (0, - (982 / 100), 0), iterations = 10,
      allowSleep = True, World.bodies = [0]\<rparr>"
  by (simp add: one_body_worker_def ready_worker_def createBody_def make_shape_def new_Box_def
      box_options_def init_def new_PhysicsWorker_def World_addBody_def Let_def)

lemma bodyStore_one_body_worker:
  "bodyStore one_body_worker 0 = make_body (box_options (0, 1, 0)) (Box (1 / 2, 1 / 2, 1 / 2))"
  by (simp add: one_body_worker_def ready_worker_def createBody_def make_shape_def new_Box_def
      box_options_def init_def new_PhysicsWorker_def Let_def)

lemma objects_demo_events:
  "objects (fst (main_run (demo_events @ [Update 16]) (fst (new_PhysicsWorld demo_scene))))
     = [(1, 5), (2, 3)]"
  by (simp add: demo_events_def new_PhysicsWorld_def addObject_def PhysicsWorld_update_def Let_def)

subsection \<open>Capacity of the arrays\<close>

lemma written_worker_facts:
  "positions written_worker = 2" "quaternions written_worker = 3" "nextArray written_worker = 4"
  "arrays written_worker 2 = [1, 2, 3]" "arrays written_worker 3 = [5, 6, 7, 8]"
  "bodies written_worker = [(1, 0)]" "nextBody written_worker = 1"
  "world written_worker = Some \<lparr>gravity = (0, - (982 / 100), 0), iterations = 10,
      allowSleep = True, World.bodies = [0]\<rparr>"
  by (simp_all add: written_worker_def one_body_worker_def ready_worker_def createBody_def
      make_shape_def new_Box_def box_options_def init_def new_PhysicsWorker_def resizeArrays_def
      World_addBody_def Float32Array_set_def new_Float32Array_def Let_def)

lemma createBody_grown_worker:
  "createBody 2 (box_options (0, 3, 0)) written_worker = Inr grown_worker"
proof -
  have "\<not> rejected_shape (box_options (0, 3, 0))"
    by (simp add: rejected_shape_def box_options_def)
  then obtain s1 where "createBody 2 (box_options (0, 3, 0)) written_worker = Inr s1"
    using createBody_succeeds [OF written_worker_facts(8)] by blast
  then show ?thesis
    by (simp add: grown_worker_def)
qed

lemma grown_worker_facts:
  "bodies grown_worker = [(1, 0), (2, 1)]"
  "arrays grown_worker (positions grown_worker) = [1, 2, 3, 0, 0, 0]"
  "arrays grown_worker (quaternions grown_worker) = [5, 6, 7, 8, 0, 0, 0, 0]"
proof -
  obtain shape w where eq: "grown_worker =
      resizeArrays (written_worker\<lparr>bodyStore := (bodyStore written_worker)
                        (nextBody written_worker := make_body (box_options (0, 3, 0)) shape),
                      nextBody := Suc (nextBody written_worker),
                      world := Some (World_addBody (nextBody written_worker) w),
                      bodies := AList.update 2 (nextBody written_worker) (bodies written_worker)\<rparr>)"
    using createBody_Inr [OF createBody_grown_worker] by blast
  have r6: "replicate 6 (0::real) = [0, 0, 0, 0, 0, 0]" "replicate 8 (0::real) = [0, 0, 0, 0, 0, 0, 0, 0]"
    by (simp_all add: numeral_eq_Suc)
  show "bodies grown_worker = [(1, 0), (2, 1)]"
    by (subst eq) (simp add: written_worker_facts)
  show "arrays grown_worker (positions grown_worker) = [1, 2, 3, 0, 0, 0]"
    by (subst eq, subst eq)
      (simp add: written_worker_facts resizeArrays_def Float32Array_set_def new_Float32Array_def
        Let_def r6)
  show "arrays grown_worker (quaternions grown_worker) = [5, 6, 7, 8, 0, 0, 0, 0]"
    by (subst eq, subst eq)
      (simp add: written_worker_facts resizeArrays_def Float32Array_set_def new_Float32Array_def
        Let_def r6)
qed

text \<open>
  C9.  Let \<^verbatim>\<open>createBody\<close> succeed in a state in which the worker's two references
  denote two different allocated arrays, whatever the arrays hold (every state the
  worker can reach is such a state).  Afterwards the two arrays have room for every
  body of the map (three and four numbers each); neither array is shorter than before,
  and each still begins with all it held before, so growing keeps every entry written
  earlier; every id that was in the map is at the index it had; and the frame of the
  next \<open>UPDATE\<close> holds, at the index of every body of the map, the position and
  orientation of that body after the step, narrowed.
\<close>

theorem createBody_capacity:
  assumes "refs_ok s" and "createBody bid options s = Inr s1"
  shows "length (bodies s1) * 3 \<le> length (arrays s1 (positions s1))
       \<and> length (bodies s1) * 4 \<le> length (arrays s1 (quaternions s1))
       \<and> length (arrays s (positions s)) \<le> length (arrays s1 (positions s1))
       \<and> length (arrays s (quaternions s)) \<le> length (arrays s1 (quaternions s1))
       \<and> take (length (arrays s (positions s))) (arrays s1 (positions s1)) = arrays s (positions s)
       \<and> take (length (arrays s (quaternions s))) (arrays s1 (quaternions s1))
           = arrays s (quaternions s)
       \<and> (\<forall>i < length (bodies s). fst (bodies s1 ! i) = fst (bodies s ! i))
       \<and> (\<exists>s2 ps qs. handleMessage E (UPDATE dt) s1 = Inr (s2, [SYNC ps qs])
            \<and> (\<forall>i < length (bodies s1).
                  triple ps i = fround3 E (Body.position (bodyStore s2 (snd (bodies s1 ! i))))
                \<and> quadruple qs i
                    = fround4 E (Body.quaternion (bodyStore s2 (snd (bodies s1 ! i))))))"
proof -
  from createBody_Inr [OF assms(2)] obtain shape w where
    s1: "s1 = resizeArrays (s\<lparr>bodyStore := (bodyStore s)(nextBody s := make_body options shape),
                              nextBody := Suc (nextBody s),
                              world := Some (World_addBody (nextBody s) w),
                              bodies := AList.update bid (nextBody s) (bodies s)\<rparr>)"
    by blast
  define t where "t = s\<lparr>bodyStore := (bodyStore s)(nextBody s := make_body options shape),
                              nextBody := Suc (nextBody s),
                              world := Some (World_addBody (nextBody s) w),
                              bodies := AList.update bid (nextBody s) (bodies s)\<rparr>"
  have rt: "refs_ok t" using assms(1) by (simp add: refs_ok_def t_def)
  have s1t: "s1 = resizeArrays t" by (simp add: s1 t_def)
  have at: "arrays t = arrays s" "positions t = positions s" "quaternions t = quaternions s"
    by (simp_all add: t_def)
  have r1: "refs_ok s1" and c1: "capacity_ok s1"
    using rt by (simp_all add: s1t refs_ok_resizeArrays capacity_ok_resizeArrays)
  have w1: "world s1 = Some (World_addBody (nextBody s) w)"
    by (simp add: s1)
  have b1: "bodies s1 = AList.update bid (nextBody s) (bodies s)"
    by (simp add: s1)
  from update_frame [OF w1 r1 c1, of E dt] obtain s2 ps qs where
    u: "update E dt s1 = Inr (s2, [SYNC ps qs])"
    and e: "\<forall>i < length (bodies s1).
                triple ps i = fround3 E (Body.position (bodyStore s2 (snd (bodies s1 ! i))))
              \<and> quadruple qs i = fround4 E (Body.quaternion (bodyStore s2 (snd (bodies s1 ! i))))"
    by blast
  have "\<exists>s2 ps qs. handleMessage E (UPDATE dt) s1 = Inr (s2, [SYNC ps qs])
            \<and> (\<forall>i < length (bodies s1).
                  triple ps i = fround3 E (Body.position (bodyStore s2 (snd (bodies s1 ! i))))
                \<and> quadruple qs i
                    = fround4 E (Body.quaternion (bodyStore s2 (snd (bodies s1 ! i)))))"
    using u e by auto
  moreover have "\<forall>i < length (bodies s). fst (bodies s1 ! i) = fst (bodies s ! i)"
    by (simp add: b1 fst_nth_update)
  ultimately show ?thesis
    using c1 resizeArrays_grows [OF rt] by (simp add: capacity_ok_def s1t [symmetric] at)
qed

theorem createBody_capacity_witness:
  "refs_ok written_worker
 \<and> createBody 2 (box_options (0, 3, 0)) written_worker = Inr grown_worker
 \<and> bodies written_worker = [(1, 0)] \<and> bodies grown_worker = [(1, 0), (2, 1)]
 \<and> arrays written_worker (positions written_worker) = [1, 2, 3]
 \<and> arrays written_worker (quaternions written_worker) = [5, 6, 7, 8]
 \<and> arrays grown_worker (positions grown_worker) = [1, 2, 3, 0, 0, 0]
 \<and> arrays grown_worker (quaternions grown_worker) = [5, 6, 7, 8, 0, 0, 0, 0]
 \<and> 2 * 3 \<le> length (arrays grown_worker (positions grown_worker))
 \<and> 2 * 4 \<le> length (arrays grown_worker (quaternions grown_worker))
 \<and> length (arrays written_worker (positions written_worker))
     \<le> length (arrays grown_worker (positions grown_worker))
 \<and> length (arrays written_worker (quaternions written_worker))
     \<le> length (arrays grown_worker (quaternions grown_worker))
 \<and> take 3 (arrays grown_worker (positions grown_worker)) = [1, 2, 3]
 \<and> take 4 (arrays grown_worker (quaternions grown_worker)) = [5, 6, 7, 8]
 \<and> (\<exists>s2 ps qs. handleMessage demo_Env (UPDATE (1 / 60)) grown_worker = Inr (s2, [SYNC ps qs])
        \<and> triple ps 0 = fround3 demo_Env (Body.position (bodyStore s2 0))
        \<and> quadruple qs 0 = fround4 demo_Env (Body.quaternion (bodyStore s2 0))
        \<and> triple ps 1 = fround3 demo_Env (Body.position (bodyStore s2 1))
        \<and> quadruple qs 1 = fround4 demo_Env (Body.quaternion (bodyStore s2 1)))"
proof -
  have h1: "refs_ok written_worker"
    by (simp add: refs_ok_def written_worker_facts)
  note t = createBody_capacity [OF h1 createBody_grown_worker, of demo_Env "1 / 60"]
  from t obtain s2 ps qs where
    u: "handleMessage demo_Env (UPDATE (1 / 60)) grown_worker = Inr (s2, [SYNC ps qs])"
    and e: "\<forall>i < length (bodies grown_worker).
              triple ps i
                = fround3 demo_Env (Body.position (bodyStore s2 (snd (bodies grown_worker ! i))))
            \<and> quadruple qs i
                = fround4 demo_Env
                    (Body.quaternion (bodyStore s2 (snd (bodies grown_worker ! i))))"
    by blast
  have e0: "triple ps 0 = fround3 demo_Env (Body.position (bodyStore s2 0))
        \<and> quadruple qs 0 = fround4 demo_Env (Body.quaternion (bodyStore s2 0))"
    using e [rule_format, of 0] by (simp add: grown_worker_facts)
  have e1: "triple ps 1 = fround3 demo_Env (Body.position (bodyStore s2 1))
        \<and> quadruple qs 1 = fround4 demo_Env (Body.quaternion (bodyStore s2 1))"
    using e [rule_format, of 1] by (simp add: grown_worker_facts)
  have f: "\<exists>s2 ps qs. handleMessage demo_Env (UPDATE (1 / 60)) grown_worker = Inr (s2, [SYNC ps qs])
        \<and> triple ps 0 = fround3 demo_Env (Body.position (bodyStore s2 0))
        \<and> quadruple qs 0 = fround4 demo_Env (Body.quaternion (bodyStore s2 0))
        \<and> triple ps 1 = fround3 demo_Env (Body.position (bodyStore s2 1))
        \<and> quadruple qs 1 = fround4 demo_Env (Body.quaternion (bodyStore s2 1))"
    using u e0 e1 by blast
  have pw: "arrays written_worker (positions written_worker) = [1, 2, 3]"
    "arrays written_worker (quaternions written_worker) = [5, 6, 7, 8]"
    by (simp_all add: written_worker_facts)
  have tk: "take 3 (arrays grown_worker (positions grown_worker)) = [1, 2, 3]"
    "take 4 (arrays grown_worker (quaternions grown_worker)) = [5, 6, 7, 8]"
    using t by (simp_all add: pw eval_nat_numeral)
  show ?thesis
    using h1 createBody_grown_worker f pw tk
    by (simp add: grown_worker_facts written_worker_facts)
qed

subsection \<open>What one Update does\<close>

text \<open>
  C6.  In a state the worker can reach and in which the world is initialised, \<open>UPDATE dt\<close>
  makes the world and the bodies what one call of the engine's step with \<open>dt\<close> returns,
  and posts exactly one \<open>SYNC\<close> frame.  The map is unchanged, and the frame holds at the
  index of every body of the map, in the order of the map, the position and orientation
  of that body after the step, narrowed.  Both arrays of the frame are detached in the
  worker.  The worker's two arrays are now two newly allocated arrays of zeros, of three
  and of four numbers for every body of the map.  Whatever the worker handles later, it
  never again holds a reference to one of the transferred arrays, and they stay as the
  transfer left them.
\<close>

theorem update_one_step_one_frame:
  assumes "run E ms new_PhysicsWorker = Inr (s, out)" and "world s = Some w"
  shows "\<exists>s1 ps qs w1.
           handleMessage E (UPDATE dt) s = Inr (s1, [SYNC ps qs])
         \<and> world s1 = Some w1 \<and> (w1, bodyStore s1) = world_step E dt w (bodyStore s)
         \<and> bodies s1 = bodies s
         \<and> (\<forall>i < length (bodies s).
                triple ps i = fround3 E (Body.position (bodyStore s1 (snd (bodies s ! i))))
              \<and> quadruple qs i = fround4 E (Body.quaternion (bodyStore s1 (snd (bodies s ! i)))))
         \<and> arrays s1 (positions s) = [] \<and> arrays s1 (quaternions s) = []
         \<and> nextArray s \<le> positions s1 \<and> nextArray s \<le> quaternions s1
         \<and> positions s1 \<noteq> quaternions s1
         \<and> arrays s1 (positions s1) = new_Float32Array (length (bodies s) * 3)
         \<and> arrays s1 (quaternions s1) = new_Float32Array (length (bodies s) * 4)
         \<and> (\<forall>ms' s2 out2. run E ms' s1 = Inr (s2, out2) \<longrightarrow>
                positions s2 \<noteq> positions s \<and> positions s2 \<noteq> quaternions s
              \<and> quaternions s2 \<noteq> positions s \<and> quaternions s2 \<noteq> quaternions s
              \<and> arrays s2 (positions s) = [] \<and> arrays s2 (quaternions s) = [])"
proof -
  have r: "refs_ok s" and c: "capacity_ok s"
    using reachable_invariants [OF assms(1)] by simp_all
  from update_frame [OF assms(2) r c, of E dt] obtain s1 ps qs w1 where
    u: "update E dt s = Inr (s1, [SYNC ps qs])"
    and st: "world s1 = Some w1" "(w1, bodyStore s1) = world_step E dt w (bodyStore s)"
      "bodies s1 = bodies s"
    and e: "\<forall>i < length (bodies s).
                triple ps i = fround3 E (Body.position (bodyStore s1 (snd (bodies s ! i))))
              \<and> quadruple qs i = fround4 E (Body.quaternion (bodyStore s1 (snd (bodies s ! i))))"
    and n: "positions s1 = nextArray s" "quaternions s1 = Suc (nextArray s)"
      "nextArray s1 = Suc (Suc (nextArray s))"
    and d: "arrays s1 (positions s) = []" "arrays s1 (quaternions s) = []"
    and f: "arrays s1 (positions s1) = new_Float32Array (length (bodies s) * 3)"
      "arrays s1 (quaternions s1) = new_Float32Array (length (bodies s) * 4)"
    by blast
  have rp: "retired s1 (positions s)" and rq: "retired s1 (quaternions s)"
    using r n by (simp_all add: retired_def refs_ok_def)
  have later: "positions s2 \<noteq> positions s \<and> positions s2 \<noteq> quaternions s
              \<and> quaternions s2 \<noteq> positions s \<and> quaternions s2 \<noteq> quaternions s
              \<and> arrays s2 (positions s) = [] \<and> arrays s2 (quaternions s) = []"
    if "run E ms' s1 = Inr (s2, out2)" for ms' s2 out2
    using run_retired [OF that rp] run_retired [OF that rq] d
    by (auto simp: retired_def)
  have "handleMessage E (UPDATE dt) s = Inr (s1, [SYNC ps qs])"
    using u by simp
  then show ?thesis
    using st e n d f later by (intro exI [of _ s1] exI [of _ ps] exI [of _ qs] exI [of _ w1]) simp
qed

theorem update_one_step_one_frame_witness:
  "run demo_Env [INIT (0, - (982 / 100), 0) (Some 10), ADD_BODY 1 (box_options (0, 1, 0))]
     new_PhysicsWorker = Inr (one_body_worker, [])
 \<and> world one_body_worker = Some \<lparr>gravity = (0, - (982 / 100), 0), iterations = 10,
      allowSleep = True, World.bodies = [0]\<rparr>
 \<and> bodies one_body_worker = [(1, 0)]
 \<and> (\<exists>s1 ps qs w1.
       handleMessage demo_Env (UPDATE (1 / 60)) one_body_worker = Inr (s1, [SYNC ps qs])
     \<and> world s1 = Some w1
     \<and> (w1, bodyStore s1)
         = world_step demo_Env (1 / 60)
             \<lparr>gravity = (0, - (982 / 100), 0), iterations = 10, allowSleep = True,
              World.bodies = [0]\<rparr>
             (bodyStore one_body_worker)
     \<and> bodies s1 = [(1, 0)]
     \<and> triple ps 0 = fround3 demo_Env (Body.position (bodyStore s1 0))
     \<and> quadruple qs 0 = fround4 demo_Env (Body.quaternion (bodyStore s1 0))
     \<and> arrays s1 (positions one_body_worker) = []
     \<and> arrays s1 (quaternions one_body_worker) = []
     \<and> nextArray one_body_worker \<le> positions s1
     \<and> nextArray one_body_worker \<le> quaternions s1
     \<and> positions s1 \<noteq> quaternions s1
     \<and> arrays s1 (positions s1) = [0, 0, 0]
     \<and> arrays s1 (quaternions s1) = [0, 0, 0, 0]
     \<and> (\<exists>s2. run demo_Env [SET_POSITION 1 (0, 5, 0), REMOVE_BODY 1] s1 = Inr (s2, [])
          \<and> positions s2 \<noteq> positions one_body_worker
          \<and> positions s2 \<noteq> quaternions one_body_worker
          \<and> quaternions s2 \<noteq> positions one_body_worker
          \<and> quaternions s2 \<noteq> quaternions one_body_worker
          \<and> arrays s2 (positions one_body_worker) = []
          \<and> arrays s2 (quaternions one_body_worker) = []))"
proof -
  from update_one_step_one_frame [OF run_one_body_worker world_one_body_worker_eq,
      of demo_Env "1 / 60"]
  obtain s1 ps qs w1 where
    u: "handleMessage demo_Env (UPDATE (1 / 60)) one_body_worker = Inr (s1, [SYNC ps qs])"
    and st: "world s1 = Some w1"
      "(w1, bodyStore s1)
         = world_step demo_Env (1 / 60)
             \<lparr>gravity = (0, - (982 / 100), 0), iterations = 10, allowSleep = True,
              World.bodies = [0]\<rparr>
             (bodyStore one_body_worker)"
    and b: "bodies s1 = bodies one_body_worker"
    and e: "\<forall>i < length (bodies one_body_worker).
            triple ps i
              = fround3 demo_Env (Body.position (bodyStore s1 (snd (bodies one_body_worker ! i))))
          \<and> quadruple qs i
              = fround4 demo_Env
                  (Body.quaternion (bodyStore s1 (snd (bodies one_body_worker ! i))))"
    and d: "arrays s1 (positions one_body_worker) = []"
      "arrays s1 (quaternions one_body_worker) = []"
      "nextArray one_body_worker \<le> positions s1"
      "nextArray one_body_worker \<le> quaternions s1"
      "positions s1 \<noteq> quaternions s1"
    and f: "arrays s1 (positions s1) = new_Float32Array (length (bodies one_body_worker) * 3)"
      "arrays s1 (quaternions s1) = new_Float32Array (length (bodies one_body_worker) * 4)"
    and later: "\<forall>ms' s2 out2. run demo_Env ms' s1 = Inr (s2, out2) \<longrightarrow>
            positions s2 \<noteq> positions one_body_worker
          \<and> positions s2 \<noteq> quaternions one_body_worker
          \<and> quaternions s2 \<noteq> positions one_body_worker
          \<and> quaternions s2 \<noteq> quaternions one_body_worker
          \<and> arrays s2 (positions one_body_worker) = []
          \<and> arrays s2 (quaternions one_body_worker) = []"
    by blast
  have b1: "bodies s1 = [(1, 0)]"
    using b by (simp add: bodies_one_body_worker)
  have e0: "triple ps 0 = fround3 demo_Env (Body.position (bodyStore s1 0))
     \<and> quadruple qs 0 = fround4 demo_Env (Body.quaternion (bodyStore s1 0))"
    using e [rule_format, of 0] by (simp add: bodies_one_body_worker)
  have f1: "arrays s1 (positions s1) = [0, 0, 0]" "arrays s1 (quaternions s1) = [0, 0, 0, 0]"
    using f by (simp_all add: bodies_one_body_worker new_Float32Array_def numeral_3_eq_3
        numeral_Bit0 [of "Num.Bit0 Num.One"])
  obtain s2 where r2: "run demo_Env [SET_POSITION 1 (0, 5, 0), REMOVE_BODY 1] s1 = Inr (s2, [])"
    using b1 st(1) by (simp add: setPosition_def removeBody_def)
  have l2: "positions s2 \<noteq> positions one_body_worker
          \<and> positions s2 \<noteq> quaternions one_body_worker
          \<and> quaternions s2 \<noteq> positions one_body_worker
          \<and> quaternions s2 \<noteq> quaternions one_body_worker
          \<and> arrays s2 (positions one_body_worker) = []
          \<and> arrays s2 (quaternions one_body_worker) = []"
    using later r2 by blast
  show ?thesis
    using run_one_body_worker [of demo_Env] world_one_body_worker_eq bodies_one_body_worker
      u st b1 e0 d f1 r2 l2
    by (intro conjI exI [of _ s1] exI [of _ ps] exI [of _ qs] exI [of _ w1] exI [of _ s2])
      simp_all
qed

subsection \<open>The order of the frame and the order of the objects\<close>

lemma added_Cons: "added (e # es) = added [e] @ added es"
  by (cases e) simp_all

lemma added_append: "added (es @ es') = added es @ added es'"
proof (induction es)
  case Nil
  then show ?case by simp
next
  case (Cons e es)
  then show ?case
    using added_Cons [of e "es @ es'"] added_Cons [of e es] by simp
qed

lemma main_run_append:
  "main_run (es @ es') c =
     (fst (main_run es' (fst (main_run es c))),
      snd (main_run es c) @ snd (main_run es' (fst (main_run es c))))"
  by (induction es arbitrary: c) (simp_all add: split_beta Let_def)

lemma objects_handleMessage [simp]:
  "objects (PhysicsWorld_handleMessage m c) = objects c"
  "nextBodyId (PhysicsWorld_handleMessage m c) = nextBodyId c"
  by (cases m; simp add: updateObjects_def resolve_def split: option.splits)+

lemma main_step_ok_event:
  assumes "ok_event e" and "list_all (\<lambda>p. fst p < nextBodyId c) (objects c)"
  shows "map fst (objects (fst (main_step e c)))
           = map fst (objects c) @ [nextBodyId c ..< nextBodyId c + length (added [e])]
       \<and> map snd (objects (fst (main_step e c))) = map snd (objects c) @ added [e]
       \<and> nextBodyId (fst (main_step e c)) = nextBodyId c + length (added [e])
       \<and> list_all ok_command (snd (main_step e c))
       \<and> created (snd (main_step e c)) = [nextBodyId c ..< nextBodyId c + length (added [e])]
       \<and> list_all (\<lambda>p. fst p < nextBodyId (fst (main_step e c))) (objects (fst (main_step e c)))"
proof (cases e)
  case (AddObject object options)
  have nk: "nextBodyId c \<notin> fst ` set (objects c)"
    using assms(2) by (auto simp: list_all_iff)
  have "list_all (\<lambda>p. fst p < Suc (nextBodyId c)) (objects c)"
    using assms(2) by (auto simp: list_all_iff)
  then show ?thesis
    using AddObject assms(1) by (simp add: addObject_def Let_def update_new_key [OF nk])
next
  case (RemoveObject bid)
  with assms(1) show ?thesis by simp
next
  case (Update now)
  then show ?thesis
    using assms(2) by (simp add: PhysicsWorld_update_def Let_def)
next
  case (GetBodyProperties bid rid)
  then show ?thesis
    using assms(2) by (simp add: getBodyProperties_def Let_def)
qed (use assms(2) in simp_all)

lemma main_run_ok_events:
  assumes "list_all ok_event es" and "list_all (\<lambda>p. fst p < nextBodyId c) (objects c)"
  shows "map fst (objects (fst (main_run es c)))
           = map fst (objects c) @ [nextBodyId c ..< nextBodyId c + length (added es)]
       \<and> map snd (objects (fst (main_run es c))) = map snd (objects c) @ added es
       \<and> list_all ok_command (snd (main_run es c))
       \<and> created (snd (main_run es c)) = [nextBodyId c ..< nextBodyId c + length (added es)]"
  using assms
proof (induction es arbitrary: c)
  case Nil
  then show ?case by simp
next
  case (Cons e es)
  define c1 where "c1 = fst (main_step e c)"
  have oke: "ok_event e" and okes: "list_all ok_event es"
    using Cons.prems(1) by simp_all
  note st = main_step_ok_event [OF oke Cons.prems(2), folded c1_def]
  have inv1: "list_all (\<lambda>p. fst p < nextBodyId c1) (objects c1)"
    using st by blast
  note ih = Cons.IH [OF okes inv1]
  have ae: "added (e # es) = added [e] @ added es"
    by (rule added_Cons)
  have u: "[nextBodyId c ..< nextBodyId c + length (added [e])]
             @ [nextBodyId c1 ..< nextBodyId c1 + length (added es)]
           = [nextBodyId c ..< nextBodyId c + length (added (e # es))]"
    using upt_add_eq_append [of "nextBodyId c" "nextBodyId c + length (added [e])"
        "length (added es)"] st
    by (simp add: ae add.assoc)
  have run: "main_run (e # es) c = (fst (main_run es c1),
               snd (main_step e c) @ snd (main_run es c1))"
    by (simp add: split_beta Let_def c1_def)
  have "map fst (objects (fst (main_run (e # es) c)))
          = map fst (objects c) @ [nextBodyId c ..< nextBodyId c + length (added (e # es))]"
    unfolding run using ih st u by simp
  moreover have "map snd (objects (fst (main_run (e # es) c))) = map snd (objects c) @ added (e # es)"
    unfolding run using ih st by (simp add: ae)
  moreover have "list_all ok_command (snd (main_run (e # es) c))"
    unfolding run using ih st by simp
  moreover have "created (snd (main_run (e # es) c))
                   = [nextBodyId c ..< nextBodyId c + length (added (e # es))]"
    unfolding run using ih st u by (simp add: created_append)
  ultimately show ?case by blast
qed

text \<open>
  C1.  A coordinator is constructed and any events follow in which no object is removed
  and every object added has a shape that is not rejected: \<open>N\<close> pairwise different
  objects are added, and forces, positions, velocities, updates, queries and deliveries
  may come in between.  Then \<^verbatim>\<open>update()\<close> is called.  A new worker that handles the
  commands so posted, in their order, raises nothing, and the last message it posts is
  a \<open>SYNC\<close> frame of exactly \<open>3 N\<close> and \<open>4 N\<close> numbers.  For every \<open>i < N\<close>, entry \<open>i\<close> of
  the worker's map is the \<open>i\<close>-th body created, under the id the coordinator's map has
  at index \<open>i\<close> for the \<open>i\<close>-th object added; entry \<open>i\<close> of the frame is the position
  and orientation of that body after the step, narrowed; and the coordinator that
  handles the frame gives exactly these to the \<open>i\<close>-th object added.
\<close>

theorem round_trip_ordering:
  fixes es :: "MainEvent list" and now :: real and scene :: "object_ref \<Rightarrow> Object3D"
  assumes "list_all ok_event es" and "distinct (added es)"
  defines "c \<equiv> fst (main_run (es @ [Update now]) (fst (new_PhysicsWorld scene)))"
  shows "\<exists>w out ps qs.
           run E (snd (new_PhysicsWorld scene)
                    @ snd (main_run (es @ [Update now]) (fst (new_PhysicsWorld scene))))
             new_PhysicsWorker = Inr (w, out @ [SYNC ps qs])
         \<and> length ps = length (added es) * 3 \<and> length qs = length (added es) * 4
         \<and> length (bodies w) = length (added es)
         \<and> length (objects c) = length (added es)
         \<and> (\<forall>i < length (added es).
                snd (bodies w ! i) = i
              \<and> fst (bodies w ! i) = fst (objects c ! i)
              \<and> snd (objects c ! i) = added es ! i
              \<and> triple ps i = fround3 E (Body.position (bodyStore w i))
              \<and> quadruple qs i = fround4 E (Body.quaternion (bodyStore w i))
              \<and> Object3D.position (object3Ds (PhysicsWorld_handleMessage (SYNC ps qs) c)
                                     (added es ! i))
                  = some3 (fround3 E (Body.position (bodyStore w i)))
              \<and> Object3D.quaternion (object3Ds (PhysicsWorld_handleMessage (SYNC ps qs) c)
                                       (added es ! i))
                  = some4 (fround4 E (Body.quaternion (bodyStore w i))))"
proof -
  define c0 where "c0 = fst (new_PhysicsWorld scene)"
  define N where "N = length (added es)"
  define cmds where "cmds = snd (main_run es c0)"
  define c1 where "c1 = fst (main_run es c0)"
  have c0: "objects c0 = []" "nextBodyId c0 = 1"
    by (simp_all add: c0_def new_PhysicsWorld_def)
  have inv0: "list_all (\<lambda>p. fst p < nextBodyId c0) (objects c0)"
    by (simp add: c0)
  note co = main_run_ok_events [OF assms(1) inv0, folded c1_def cmds_def N_def]
  have o1: "map fst (objects c1) = [1 ..< 1 + N]" "map snd (objects c1) = added es"
    and k1: "list_all ok_command cmds" and cr: "created cmds = [1 ..< 1 + N]"
    using co by (simp_all add: c0)
  obtain dt where up: "PhysicsWorld_update now c1 = (c1\<lparr>lastUpdateTime := now\<rparr>, [UPDATE dt])"
    by (simp add: PhysicsWorld_update_def Let_def)
  have mr: "main_run (es @ [Update now]) c0 = (c1\<lparr>lastUpdateTime := now\<rparr>, cmds @ [UPDATE dt])"
    by (simp add: main_run_append c1_def [symmetric] cmds_def [symmetric] up)
  have c: "c = c1\<lparr>lastUpdateTime := now\<rparr>"
    by (simp add: c_def c0_def [symmetric] mr)
  have oc: "map fst (objects c) = [1 ..< 1 + N]" "map snd (objects c) = added es"
    using o1 by (simp_all add: c)
  have lc: "length (objects c) = N"
    using oc(2) N_def by (metis length_map)
  \<comment> \<open>the worker\<close>
  define s0 where "s0 = init (0, - (982 / 100), 0) (Some 10) new_PhysicsWorker"
  have s0: "world s0 \<noteq> None" "refs_ok s0" "exact_ok s0" "bodies s0 = []" "nextBody s0 = 0"
    by (simp_all add: s0_def init_def new_PhysicsWorker_def refs_ok_def exact_ok_def)
  have d0: "distinct (map fst (bodies s0) @ created cmds)"
    by (simp add: s0 cr)
  from run_ok_commands [OF k1 s0(1,2,3) d0, of E] obtain s1 out where
    r1: "run E cmds s0 = Inr (s1, out)"
    and i1: "world s1 \<noteq> None" "refs_ok s1" "exact_ok s1"
    and b1: "map fst (bodies s1) = [1 ..< 1 + N]" "map snd (bodies s1) = [0 ..< N]"
    by (auto simp: s0 cr)
  have l1: "length (bodies s1) = N"
    using b1(2) by (metis length_map length_upt minus_nat.diff_0)
  from i1(1) obtain wd where wd: "world s1 = Some wd" by auto
  from update_frame [OF wd i1(2) exact_capacity [OF i1(3)], of E dt] obtain w ps qs where
    u: "update E dt s1 = Inr (w, [SYNC ps qs])"
    and bw: "bodies w = bodies s1"
    and len: "length ps = length (arrays s1 (positions s1))"
      "length qs = length (arrays s1 (quaternions s1))"
    and ent: "\<forall>i < length (bodies s1).
                triple ps i = fround3 E (Body.position (bodyStore w (snd (bodies s1 ! i))))
              \<and> quadruple qs i = fround4 E (Body.quaternion (bodyStore w (snd (bodies s1 ! i))))"
    by blast
  have lps: "length ps = N * 3" "length qs = N * 4"
    using len i1(3) l1 by (simp_all add: exact_ok_def)
  have run: "run E (snd (new_PhysicsWorld scene) @ cmds @ [UPDATE dt]) new_PhysicsWorker
               = Inr (w, out @ [SYNC ps qs])"
  proof -
    have "snd (new_PhysicsWorld scene) = [INIT (0, - (982 / 100), 0) (Some 10)]"
      by (simp add: new_PhysicsWorld_def)
    moreover have "handleMessage E (INIT (0, - (982 / 100), 0) (Some 10)) new_PhysicsWorker
                     = Inr (s0, [])"
      by (simp add: s0_def)
    moreover have "run E (cmds @ [UPDATE dt]) s0 = Inr (w, out @ [SYNC ps qs])"
      using r1 u by (simp add: run_append)
    ultimately show ?thesis by simp
  qed
  have per: "snd (bodies w ! i) = i
              \<and> fst (bodies w ! i) = fst (objects c ! i)
              \<and> snd (objects c ! i) = added es ! i
              \<and> triple ps i = fround3 E (Body.position (bodyStore w i))
              \<and> quadruple qs i = fround4 E (Body.quaternion (bodyStore w i))
              \<and> Object3D.position (object3Ds (PhysicsWorld_handleMessage (SYNC ps qs) c)
                                     (added es ! i))
                  = some3 (fround3 E (Body.position (bodyStore w i)))
              \<and> Object3D.quaternion (object3Ds (PhysicsWorld_handleMessage (SYNC ps qs) c)
                                       (added es ! i))
                  = some4 (fround4 E (Body.quaternion (bodyStore w i)))"
    if i: "i < N" for i
  proof -
    have si: "snd (bodies s1 ! i) = i"
      using b1(2) i l1 by (metis nth_map nth_upt add_0)
    have fi: "fst (bodies s1 ! i) = fst (objects c ! i)"
      using b1(1) oc(1) i l1 lc by (metis nth_map)
    have oi: "snd (objects c ! i) = added es ! i"
      using oc(2) i lc by (metis nth_map)
    have e: "triple ps i = fround3 E (Body.position (bodyStore w i))"
      "quadruple qs i = fround4 E (Body.quaternion (bodyStore w i))"
      using ent i l1 si by auto
    have dc: "distinct (map snd (objects c))"
      using oc(2) assms(2) by simp
    have ic: "i < length (objects c)" using i lc by simp
    have rng: "i * 3 + 2 < length ps" "i * 4 + 3 < length qs"
      using i lps by simp_all
    have "object3Ds (PhysicsWorld_handleMessage (SYNC ps qs) c) (snd (objects c ! i))
            = setTransform ps qs i (object3Ds c (snd (objects c ! i)))"
      using updateObjects_loop_nth [OF dc ic, of ps qs 0 "object3Ds c"] rng
      by (simp add: updateObjects_def)
    then have "object3Ds (PhysicsWorld_handleMessage (SYNC ps qs) c) (added es ! i)
            = (object3Ds c (added es ! i))\<lparr>position := some3 (triple ps i),
                 quaternion := some4 (quadruple qs i)\<rparr>"
      using setTransform_in_range [OF rng] oi by simp
    then show ?thesis
      using si fi oi e by (simp add: bw)
  qed
  show ?thesis
    using run lps l1 lc per
    by (intro exI [of _ w] exI [of _ out] exI [of _ ps] exI [of _ qs])
      (simp add: mr [unfolded c0_def] N_def [symmetric] bw)
qed

theorem round_trip_ordering_witness:
  "list_all ok_event demo_events \<and> distinct (added demo_events)
 \<and> added demo_events = [5, 3]
 \<and> objects (fst (main_run (demo_events @ [Update 16]) (fst (new_PhysicsWorld demo_scene))))
     = [(1, 5), (2, 3)]
 \<and> (\<exists>w out ps qs.
       run demo_Env (snd (new_PhysicsWorld demo_scene)
                @ snd (main_run (demo_events @ [Update 16]) (fst (new_PhysicsWorld demo_scene))))
         new_PhysicsWorker = Inr (w, out @ [SYNC ps qs])
     \<and> length ps = 6 \<and> length qs = 8 \<and> length (bodies w) = 2
     \<and> bodies w ! 0 = (1, 0) \<and> bodies w ! 1 = (2, 1)
     \<and> triple ps 0 = fround3 demo_Env (Body.position (bodyStore w 0))
     \<and> quadruple qs 0 = fround4 demo_Env (Body.quaternion (bodyStore w 0))
     \<and> triple ps 1 = fround3 demo_Env (Body.position (bodyStore w 1))
     \<and> quadruple qs 1 = fround4 demo_Env (Body.quaternion (bodyStore w 1))
     \<and> Object3D.position
           (object3Ds (PhysicsWorld_handleMessage (SYNC ps qs)
                         (fst (main_run (demo_events @ [Update 16])
                                 (fst (new_PhysicsWorld demo_scene))))) 5)
         = some3 (fround3 demo_Env (Body.position (bodyStore w 0)))
     \<and> Object3D.quaternion
           (object3Ds (PhysicsWorld_handleMessage (SYNC ps qs)
                         (fst (main_run (demo_events @ [Update 16])
                                 (fst (new_PhysicsWorld demo_scene))))) 5)
         = some4 (fround4 demo_Env (Body.quaternion (bodyStore w 0)))
     \<and> Object3D.position
           (object3Ds (PhysicsWorld_handleMessage (SYNC ps qs)
                         (fst (main_run (demo_events @ [Update 16])
                                 (fst (new_PhysicsWorld demo_scene))))) 3)
         = some3 (fround3 demo_Env (Body.position (bodyStore w 1)))
     \<and> Object3D.quaternion
           (object3Ds (PhysicsWorld_handleMessage (SYNC ps qs)
                         (fst (main_run (demo_events @ [Update 16])
                                 (fst (new_PhysicsWorld demo_scene))))) 3)
         = some4 (fround4 demo_Env (Body.quaternion (bodyStore w 1))))"
proof -
  have h1: "list_all ok_event demo_events"
    by (simp add: demo_events_def rejected_shape_def box_options_def sphere_options_def)
  have h2: "distinct (added demo_events)"
    by (simp add: demo_events_def)
  have a: "added demo_events = [5, 3]"
    by (simp add: demo_events_def)
  define c where "c = fst (main_run (demo_events @ [Update 16]) (fst (new_PhysicsWorld demo_scene)))"
  have oc: "objects c = [(1, 5), (2, 3)]"
    by (simp add: c_def objects_demo_events)
  from round_trip_ordering [OF h1 h2, of demo_Env demo_scene 16, folded c_def]
  obtain w out ps qs where
    r: "run demo_Env (snd (new_PhysicsWorld demo_scene)
                @ snd (main_run (demo_events @ [Update 16]) (fst (new_PhysicsWorld demo_scene))))
         new_PhysicsWorker = Inr (w, out @ [SYNC ps qs])"
    and l: "length ps = length (added demo_events) * 3" "length qs = length (added demo_events) * 4"
      "length (bodies w) = length (added demo_events)"
    and e: "\<forall>i < length (added demo_events).
                snd (bodies w ! i) = i
              \<and> fst (bodies w ! i) = fst (objects c ! i)
              \<and> snd (objects c ! i) = added demo_events ! i
              \<and> triple ps i = fround3 demo_Env (Body.position (bodyStore w i))
              \<and> quadruple qs i = fround4 demo_Env (Body.quaternion (bodyStore w i))
              \<and> Object3D.position (object3Ds (PhysicsWorld_handleMessage (SYNC ps qs) c)
                                     (added demo_events ! i))
                  = some3 (fround3 demo_Env (Body.position (bodyStore w i)))
              \<and> Object3D.quaternion (object3Ds (PhysicsWorld_handleMessage (SYNC ps qs) c)
                                       (added demo_events ! i))
                  = some4 (fround4 demo_Env (Body.quaternion (bodyStore w i)))"
    by blast
  have e0: "bodies w ! 0 = (1, 0)
     \<and> triple ps 0 = fround3 demo_Env (Body.position (bodyStore w 0))
     \<and> quadruple qs 0 = fround4 demo_Env (Body.quaternion (bodyStore w 0))
     \<and> Object3D.position (object3Ds (PhysicsWorld_handleMessage (SYNC ps qs) c) 5)
         = some3 (fround3 demo_Env (Body.position (bodyStore w 0)))
     \<and> Object3D.quaternion (object3Ds (PhysicsWorld_handleMessage (SYNC ps qs) c) 5)
         = some4 (fround4 demo_Env (Body.quaternion (bodyStore w 0)))"
    using e [rule_format, of 0] by (simp add: a oc prod_eq_iff)
  have e1: "bodies w ! 1 = (2, 1)
     \<and> triple ps 1 = fround3 demo_Env (Body.position (bodyStore w 1))
     \<and> quadruple qs 1 = fround4 demo_Env (Body.quaternion (bodyStore w 1))
     \<and> Object3D.position (object3Ds (PhysicsWorld_handleMessage (SYNC ps qs) c) 3)
         = some3 (fround3 demo_Env (Body.position (bodyStore w 1)))
     \<and> Object3D.quaternion (object3Ds (PhysicsWorld_handleMessage (SYNC ps qs) c) 3)
         = some4 (fround4 demo_Env (Body.quaternion (bodyStore w 1)))"
    using e [rule_format, of 1] by (simp add: a oc prod_eq_iff)
  have l': "length ps = 6" "length qs = 8" "length (bodies w) = 2"
    using l by (simp_all add: a)
  show ?thesis
    unfolding c_def [symmetric]
    using h1 h2 a oc r [folded c_def] l' e0 e1
    by (intro conjI exI [of _ w] exI [of _ out] exI [of _ ps] exI [of _ qs]) simp_all
qed

subsection \<open>A query for an unknown id\<close>

lemma handleMessage_untagged:
  assumes "handleMessage E m s = Inr (s1, out)" and "\<not> asks rid m"
  shows "list_all (\<lambda>m. \<not> tagged rid m) out"
proof (cases m)
  case (UPDATE dt)
  with assms(1) show ?thesis
    by (auto simp: update_def sync_def Let_def split: option.splits prod.splits)
next
  case (GET_BODY_PROPS bid r)
  with assms show ?thesis
    by (auto simp: getBodyProps_def Let_def split: option.splits)
qed (use assms(1) in \<open>auto split: sum.splits\<close>)

lemma run_untagged:
  "run E ms s = Inr (s1, out) \<Longrightarrow> list_all (\<lambda>m. \<not> asks rid m) ms \<Longrightarrow>
     list_all (\<lambda>m. \<not> tagged rid m) out"
proof (induction ms arbitrary: s out)
  case Nil
  then show ?case by simp
next
  case (Cons m ms)
  from run_Cons_Inr [OF Cons.prems(1)] obtain s' out1 out2 where
    h: "handleMessage E m s = Inr (s', out1)" and r: "run E ms s' = Inr (s1, out2)"
    and o: "out = out1 @ out2"
    by blast
  have "list_all (\<lambda>m. \<not> tagged rid m) out1"
    using handleMessage_untagged [OF h] Cons.prems(2) by simp
  moreover have "list_all (\<lambda>m. \<not> tagged rid m) out2"
    using Cons.IH [OF r] Cons.prems(2) by simp
  ultimately show ?case by (simp add: o)
qed

lemma list_all_update:
  "list_all P al \<Longrightarrow> P (k, v) \<Longrightarrow> list_all P (AList.update k v al)"
  by (induction al) auto

lemma list_all_delete:
  "list_all P al \<Longrightarrow> list_all P (AList.delete k al)"
  by (induction al) auto

lemma promises_below_step: "promises_below c \<Longrightarrow> promises_below (fst (main_step e c))"
proof (cases e)
  case (GetBodyProperties bid rid)
  assume "promises_below c"
  then have "list_all (\<lambda>e. snd e < Suc (nextPromise c)) (bodyPropsCallbacks c)"
    by (auto simp: promises_below_def list_all_iff)
  then show ?thesis
    using GetBodyProperties
    by (simp add: promises_below_def getBodyProperties_def Let_def list_all_update)
next
  case (Deliver m)
  assume "promises_below c"
  then show ?thesis
    using Deliver
    by (cases m) (auto simp: promises_below_def updateObjects_def resolve_def list_all_delete
        split: option.splits)
qed (simp_all add: promises_below_def addObject_def removeObject_def PhysicsWorld_update_def
      Let_def)

lemma promises_below_run: "promises_below c \<Longrightarrow> promises_below (fst (main_run es c))"
proof (induction es arbitrary: c)
  case Nil
  then show ?case by simp
next
  case (Cons e es)
  then show ?case
    using promises_below_step [of c e] by (simp add: split_beta Let_def)
qed

lemma pending_getBodyProperties:
  assumes "promises_below c" and "getBodyProperties bid rid c = (p, c1, cmds)"
  shows "pending rid p c1 \<and> cmds = [GET_BODY_PROPS bid rid]"
proof -
  have p: "p = nextPromise c"
    and c1: "c1 = c\<lparr>nextPromise := Suc p, promises := (promises c)(p := None),
                   bodyPropsCallbacks := AList.update rid p (bodyPropsCallbacks c)\<rparr>"
    and cm: "cmds = [GET_BODY_PROPS bid rid]"
    using assms(2) by (auto simp: getBodyProperties_def Let_def)
  have "list_all (\<lambda>e. fst e = rid \<or> snd e \<noteq> p) (bodyPropsCallbacks c)"
    using assms(1) by (auto simp: promises_below_def list_all_iff p)
  then have "list_all (\<lambda>e. fst e = rid \<or> snd e \<noteq> p) (AList.update rid p (bodyPropsCallbacks c))"
    by (rule list_all_update) simp
  then show ?thesis
    by (simp add: pending_def c1 cm AList.update_conv')
qed

lemma pending_step:
  assumes "pending rid p c" and "\<not> reuses rid e" and "\<forall>m. e = Deliver m \<longrightarrow> \<not> tagged rid m"
  shows "pending rid p (fst (main_step e c))"
proof (cases e)
  case (GetBodyProperties bid r)
  with assms(2) have ne: "r \<noteq> rid" by simp
  have "list_all (\<lambda>e. fst e = rid \<or> snd e \<noteq> p)
          (AList.update r (nextPromise c) (bodyPropsCallbacks c))"
    using assms(1) by (intro list_all_update) (simp_all add: pending_def)
  then show ?thesis
    using assms(1) GetBodyProperties ne
    by (auto simp: pending_def getBodyProperties_def Let_def AList.update_conv')
next
  case (Deliver m)
  show ?thesis
  proof (cases m)
    case (SYNC ps qs)
    then show ?thesis
      using assms(1) Deliver by (simp add: pending_def updateObjects_def)
  next
    case (BODY_PROPS message)
    with assms(3) Deliver have ne: "requestId message \<noteq> rid" by simp
    show ?thesis
    proof (cases "map_of (bodyPropsCallbacks c) (requestId message)")
      case None
      then show ?thesis
        using assms(1) Deliver BODY_PROPS by simp
    next
      case (Some q)
      then have "(requestId message, q) \<in> set (bodyPropsCallbacks c)"
        by (rule map_of_SomeD)
      then have qp: "q \<noteq> p"
        using assms(1) ne by (auto simp: pending_def list_all_iff)
      have "list_all (\<lambda>e. fst e = rid \<or> snd e \<noteq> p)
              (AList.delete (requestId message) (bodyPropsCallbacks c))"
        using assms(1) by (intro list_all_delete) (simp add: pending_def)
      then show ?thesis
        using assms(1) Deliver BODY_PROPS Some qp ne
        by (auto simp: pending_def resolve_def AList.delete_conv' split: option.splits)
    qed
  next
    case (UNKNOWN_OUT t)
    then show ?thesis
      using assms(1) Deliver by simp
  qed
qed (use assms(1) in \<open>simp_all add: pending_def addObject_def removeObject_def
      PhysicsWorld_update_def Let_def\<close>)

lemma pending_run:
  assumes "pending rid p c"
    and "list_all (\<lambda>e. \<not> reuses rid e \<and> delivered_from out e) es"
    and "list_all (\<lambda>m. \<not> tagged rid m) out"
  shows "pending rid p (fst (main_run es c))"
  using assms(1,2)
proof (induction es arbitrary: c)
  case Nil
  then show ?case by simp
next
  case (Cons e es)
  have "\<forall>m. e = Deliver m \<longrightarrow> \<not> tagged rid m"
    using Cons.prems(2) assms(3) by (auto simp: list_all_iff)
  then have "pending rid p (fst (main_step e c))"
    using pending_step [OF Cons.prems(1)] Cons.prems(2) by simp
  then show ?case
    using Cons.IH Cons.prems(2) by (simp add: split_beta Let_def)
qed

text \<open>
  C5.  The worker, in a state it can reach, handles \<open>GET_BODY_PROPS\<close> for an id that
  is not in its map: it posts nothing.  Let no other command of the worker's run carry
  the request id of that query.  Then no message the worker posts in the whole run is
  a response tagged with that request id.  On the main thread, the call of
  \<^verbatim>\<open>getBodyProperties\<close> has registered the callback of a new, unsettled promise under
  the request id; whatever calls follow that do not use the same request id, and whatever
  messages of the worker are delivered, the callback stays registered and the promise
  stays unsettled.  For an id that is in the map, the worker posts exactly one response,
  tagged with the request id of the query.
\<close>

theorem getBodyProps_unknown_never_answered:
  assumes "run E pre new_PhysicsWorker = Inr (s, out1)"
    and "map_of (bodies s) bid = None"
    and "run E (GET_BODY_PROPS bid rid # post) s = Inr (s', out2)"
    and "list_all (\<lambda>m. \<not> asks rid m) (pre @ post)"
    and "getBodyProperties bid rid (fst (main_run es0 (fst (new_PhysicsWorld scene))))
           = (p, c1, cmds)"
    and "list_all (\<lambda>e. \<not> reuses rid e \<and> delivered_from (out1 @ out2) e) es"
  shows "handleMessage E (GET_BODY_PROPS bid rid) s = Inr (s, [])
       \<and> list_all (\<lambda>m. \<not> tagged rid m) (out1 @ out2)
       \<and> map_of (bodyPropsCallbacks c1) rid = Some p \<and> promises c1 p = None
       \<and> map_of (bodyPropsCallbacks (fst (main_run es c1))) rid = Some p
       \<and> promises (fst (main_run es c1)) p = None
       \<and> (\<forall>t bid' r. map_of (bodies t) bid' = Some r \<longrightarrow>
             (\<exists>props. handleMessage E (GET_BODY_PROPS bid' rid) t = Inr (t, [BODY_PROPS props])
                \<and> requestId props = rid))"
proof -
  have h: "handleMessage E (GET_BODY_PROPS bid rid) s = Inr (s, [])"
    using assms(2) by (simp add: getBodyProps_def)
  have post: "run E post s = Inr (s', out2)"
    using assms(3) h by (auto split: sum.splits)
  have u1: "list_all (\<lambda>m. \<not> tagged rid m) out1"
    using run_untagged [OF assms(1)] assms(4) by simp
  have u2: "list_all (\<lambda>m. \<not> tagged rid m) out2"
    using run_untagged [OF post] assms(4) by simp
  have u: "list_all (\<lambda>m. \<not> tagged rid m) (out1 @ out2)"
    using u1 u2 by simp
  have "promises_below (fst (new_PhysicsWorld scene))"
    by (simp add: promises_below_def new_PhysicsWorld_def)
  then have "promises_below (fst (main_run es0 (fst (new_PhysicsWorld scene))))"
    by (rule promises_below_run)
  from pending_getBodyProperties [OF this assms(5)] have p1: "pending rid p c1"
    by simp
  have p2: "pending rid p (fst (main_run es c1))"
    using pending_run [OF p1 assms(6) u] .
  have known: "\<exists>props. handleMessage E (GET_BODY_PROPS bid' rid) t = Inr (t, [BODY_PROPS props])
                \<and> requestId props = rid" if "map_of (bodies t) bid' = Some r" for t bid' r
    using that by (simp add: getBodyProps_def Let_def)
  show ?thesis
    using h u p1 p2 known by (simp add: pending_def)
qed

theorem getBodyProps_unknown_never_answered_witness:
  "run demo_Env [INIT (0, - (982 / 100), 0) (Some 10), ADD_BODY 1 (box_options (0, 1, 0))]
     new_PhysicsWorker = Inr (one_body_worker, [])
 \<and> map_of (bodies one_body_worker) 7 = None
 \<and> run demo_Env (GET_BODY_PROPS 7 ''q7'' # [GET_BODY_PROPS 1 ''q8'']) one_body_worker
     = Inr (one_body_worker, [BODY_PROPS demo_props])
 \<and> list_all (\<lambda>m. \<not> asks ''q7'' m)
      ([INIT (0, - (982 / 100), 0) (Some 10), ADD_BODY 1 (box_options (0, 1, 0))]
        @ [GET_BODY_PROPS 1 ''q8''])
 \<and> getBodyProperties 7 ''q7''
      (fst (main_run [AddObject 0 (box_options (0, 1, 0))] (fst (new_PhysicsWorld demo_scene))))
     = (0, asking_world, [GET_BODY_PROPS 7 ''q7''])
 \<and> list_all (\<lambda>e. \<not> reuses ''q7'' e \<and> delivered_from ([] @ [BODY_PROPS demo_props]) e)
      [GetBodyProperties 1 ''q8'', Deliver (BODY_PROPS demo_props)]
 \<and> handleMessage demo_Env (GET_BODY_PROPS 7 ''q7'') one_body_worker = Inr (one_body_worker, [])
 \<and> list_all (\<lambda>m. \<not> tagged ''q7'' m) ([] @ [BODY_PROPS demo_props])
 \<and> map_of (bodyPropsCallbacks asking_world) ''q7'' = Some 0 \<and> promises asking_world 0 = None
 \<and> map_of (bodyPropsCallbacks
        (fst (main_run [GetBodyProperties 1 ''q8'', Deliver (BODY_PROPS demo_props)]
                asking_world))) ''q7'' = Some 0
 \<and> promises (fst (main_run [GetBodyProperties 1 ''q8'', Deliver (BODY_PROPS demo_props)]
                      asking_world)) 0 = None
 \<and> map_of (bodies one_body_worker) 1 = Some 0
 \<and> (\<exists>props. handleMessage demo_Env (GET_BODY_PROPS 1 ''q7'') one_body_worker
                = Inr (one_body_worker, [BODY_PROPS props])
       \<and> requestId props = ''q7'')"
proof -
  have h2: "map_of (bodies one_body_worker) 7 = None"
    by (simp add: bodies_one_body_worker)
  have h3: "run demo_Env (GET_BODY_PROPS 7 ''q7'' # [GET_BODY_PROPS 1 ''q8'']) one_body_worker
              = Inr (one_body_worker, [BODY_PROPS demo_props])"
    by (simp add: getBodyProps_def bodies_one_body_worker bodyStore_one_body_worker
        make_body_def new_Body_def addShape_def box_options_def zero3_def demo_props_def)
  have h4: "list_all (\<lambda>m. \<not> asks ''q7'' m)
      ([INIT (0, - (982 / 100), 0) (Some 10), ADD_BODY 1 (box_options (0, 1, 0))]
        @ [GET_BODY_PROPS 1 ''q8''])"
    by simp
  have h5: "getBodyProperties 7 ''q7''
      (fst (main_run [AddObject 0 (box_options (0, 1, 0))] (fst (new_PhysicsWorld demo_scene))))
     = (0, asking_world, [GET_BODY_PROPS 7 ''q7''])"
    by (simp add: asking_world_def getBodyProperties_def new_PhysicsWorld_def addObject_def
        Let_def)
  have h6: "list_all (\<lambda>e. \<not> reuses ''q7'' e \<and> delivered_from ([] @ [BODY_PROPS demo_props]) e)
      [GetBodyProperties 1 ''q8'', Deliver (BODY_PROPS demo_props)]"
    by simp
  have h7: "map_of (bodies one_body_worker) 1 = Some 0"
    by (simp add: bodies_one_body_worker)
  show ?thesis
    using getBodyProps_unknown_never_answered [OF run_one_body_worker h2 h3 h4 h5 h6]
      run_one_body_worker [of demo_Env] h2 h3 h4 h5 h6 h7
    by blast
qed

end
